theory Spec2Isabelle
  imports Complex_Main "HOL-Library.Log_Nat"
begin

section \<open>JavaScript numbers\<close>

text \<open>
  A JavaScript number is an IEEE-754 binary64 value. The finite ones are rationals, so a
  number is modelled as one of the four special values or a rational; \<open>Fin 0\<close> is \<open>+0\<close>.
  Every double is some \<open>Fin r\<close>, so a statement about all \<open>Fin r\<close> covers all doubles.
  Arithmetic rounds its exact result to the nearest double, ties to even (\<open>fl\<close>).
\<close>

datatype jsnum = NaN | PosInf | NegInf | NegZero | Fin rat

definition ilog2 :: "rat \<Rightarrow> int" where
  \<comment> \<open>for \<open>a > 0\<close>: the exponent \<open>e\<close> with \<open>2^e \<le> a < 2^(e+1)\<close>\<close>
  "ilog2 a =
     (let (p, q) = quotient_of a;
          k = bitlen p - bitlen q
      in if 2 powi k \<le> a then k else k - 1)"

definition round_half_even :: "rat \<Rightarrow> int" where
  "round_half_even m =
     (let f = \<lfloor>m\<rfloor>; d = m - of_int f
      in if d < 1 / 2 then f else if 1 / 2 < d then f + 1
         else if even f then f else f + 1)"

definition signed_inf :: "bool \<Rightarrow> jsnum" where
  "signed_inf neg = (if neg then NegInf else PosInf)"

definition signed_zero :: "bool \<Rightarrow> jsnum" where
  "signed_zero neg = (if neg then NegZero else Fin 0)"

definition fl :: "rat \<Rightarrow> jsnum" where
  \<comment> \<open>the double nearest to a rational: 53 significant bits (\<open>n\<close> below, at most
      \<open>2^53 = 9007199254740992\<close>), exponents from -1022 to 1023, gradual underflow, overflow
      to the infinities; a result that rounds to zero keeps the sign\<close>
  "fl r =
     (if r = 0 then Fin 0
      else let a = \<bar>r\<bar>; e0 = ilog2 a
           in if 1024 \<le> e0 then signed_inf (r < 0)
              else let e = max e0 (- 1022);
                       q = 2 powi (e - 52);
                       n = round_half_even (a / q)
                   in if n = 0 then signed_zero (r < 0)
                      else if e = 1023 \<and> 9007199254740992 \<le> n then signed_inf (r < 0)
                      else Fin (if r < 0 then - (of_int n * q) else of_int n * q))"

fun is_nan :: "jsnum \<Rightarrow> bool" where
  "is_nan NaN = True"
| "is_nan _ = False"

fun is_inf :: "jsnum \<Rightarrow> bool" where
  "is_inf PosInf = True"
| "is_inf NegInf = True"
| "is_inf _ = False"

fun is_zero :: "jsnum \<Rightarrow> bool" where
  "is_zero NegZero = True"
| "is_zero (Fin r) = (r = 0)"
| "is_zero _ = False"

fun is_neg :: "jsnum \<Rightarrow> bool" where
  \<comment> \<open>the sign bit\<close>
  "is_neg NegInf = True"
| "is_neg NegZero = True"
| "is_neg (Fin r) = (r < 0)"
| "is_neg _ = False"

fun fin_val :: "jsnum \<Rightarrow> rat" where
  "fin_val (Fin r) = r"
| "fin_val _ = 0"

definition js_neg :: "jsnum \<Rightarrow> jsnum" where
  "js_neg x =
     (case x of NaN \<Rightarrow> NaN | PosInf \<Rightarrow> NegInf | NegInf \<Rightarrow> PosInf | NegZero \<Rightarrow> Fin 0
      | Fin r \<Rightarrow> if r = 0 then NegZero else Fin (- r))"

definition js_mul :: "jsnum \<Rightarrow> jsnum \<Rightarrow> jsnum" where
  \<comment> \<open>\<open>x * y\<close>\<close>
  "js_mul x y =
     (if is_nan x \<or> is_nan y then NaN
      else if (is_inf x \<and> is_zero y) \<or> (is_zero x \<and> is_inf y) then NaN
      else if is_inf x \<or> is_inf y then signed_inf (is_neg x \<noteq> is_neg y)
      else if is_zero x \<or> is_zero y then signed_zero (is_neg x \<noteq> is_neg y)
      else fl (fin_val x * fin_val y))"

definition js_div :: "jsnum \<Rightarrow> jsnum \<Rightarrow> jsnum" where
  \<comment> \<open>\<open>x / y\<close>\<close>
  "js_div x y =
     (if is_nan x \<or> is_nan y then NaN
      else if (is_inf x \<and> is_inf y) \<or> (is_zero x \<and> is_zero y) then NaN
      else if is_inf x \<or> is_zero y then signed_inf (is_neg x \<noteq> is_neg y)
      else if is_inf y \<or> is_zero x then signed_zero (is_neg x \<noteq> is_neg y)
      else fl (fin_val x / fin_val y))"

definition js_add :: "jsnum \<Rightarrow> jsnum \<Rightarrow> jsnum" where
  \<comment> \<open>numeric \<open>x + y\<close>\<close>
  "js_add x y =
     (if is_nan x \<or> is_nan y then NaN
      else if is_inf x \<and> is_inf y then (if x = y then x else NaN)
      else if is_inf x then x
      else if is_inf y then y
      else if x = NegZero \<and> y = NegZero then NegZero
      else fl (fin_val x + fin_val y))"

definition js_sub :: "jsnum \<Rightarrow> jsnum \<Rightarrow> jsnum" where
  \<comment> \<open>\<open>x - y\<close>\<close>
  "js_sub x y = js_add x (js_neg y)"

fun js_lt :: "jsnum \<Rightarrow> jsnum \<Rightarrow> bool" where
  \<comment> \<open>\<open>x < y\<close>: false when either side is NaN; the two zeros are equal\<close>
  "js_lt NaN _ = False"
| "js_lt _ NaN = False"
| "js_lt PosInf _ = False"
| "js_lt _ PosInf = True"
| "js_lt _ NegInf = False"
| "js_lt NegInf _ = True"
| "js_lt x y = (fin_val x < fin_val y)"

definition js_gt :: "jsnum \<Rightarrow> jsnum \<Rightarrow> bool" where
  \<comment> \<open>\<open>x > y\<close>\<close>
  "js_gt x y = js_lt y x"

definition Math_round :: "jsnum \<Rightarrow> jsnum" where
  \<comment> \<open>\<open>Math.round\<close>: the nearest integer, a tie towards \<open>+\<infinity>\<close>; \<open>-0\<close> for \<open>-0\<close> and for
      \<open>-0.5 \<le> x < 0\<close>; NaN and the infinities unchanged. On a double the result is a double,
      so nothing is rounded twice.\<close>
  "Math_round x =
     (case x of
        Fin r \<Rightarrow> if - (1 / 2) \<le> r \<and> r < 0 then NegZero else Fin (of_int \<lfloor>r + 1 / 2\<rfloor>)
      | _ \<Rightarrow> x)"

definition Math_min :: "jsnum \<Rightarrow> jsnum \<Rightarrow> jsnum" where
  \<comment> \<open>\<open>Math.min\<close> of two numbers: NaN if either is; \<open>-0\<close> is below \<open>+0\<close>\<close>
  "Math_min x y =
     (if is_nan x \<or> is_nan y then NaN
      else if js_lt x y then x
      else if js_lt y x then y
      else if x = NegZero then x else y)"

definition is_integer :: "jsnum \<Rightarrow> bool" where
  \<comment> \<open>a finite number with no fractional part (\<open>Number.isInteger\<close>)\<close>
  "is_integer x = (case x of Fin r \<Rightarrow> r = of_int \<lfloor>r\<rfloor> | NegZero \<Rightarrow> True | _ \<Rightarrow> False)"

section \<open>JavaScript values\<close>

datatype jsval =
    JUndefined
  | JNull
  | JBool bool
  | JNum jsnum
  | JStr string
  | JArr "jsval list"
  | JObj "(string \<times> jsval) list"

fun truthy :: "jsval \<Rightarrow> bool" where
  "truthy JUndefined = False"
| "truthy JNull = False"
| "truthy (JBool b) = b"
| "truthy (JNum n) = (\<not> is_nan n \<and> \<not> is_zero n)"
| "truthy (JStr s) = (s \<noteq> [])"
| "truthy (JArr _) = True"
| "truthy (JObj _) = True"

definition js_or :: "jsval \<Rightarrow> jsval \<Rightarrow> jsval" where
  \<comment> \<open>\<open>a || b\<close> on values whose evaluation has no effect\<close>
  "js_or a b = (if truthy a then a else b)"

datatype js_error =
    Error string      \<comment> \<open>\<open>new Error(message)\<close> thrown by this program\<close>
  | TypeError         \<comment> \<open>raised by the engine: a property of null or undefined, a call of a
                          non-function, an object that does not convert to a primitive\<close>
  | Transport string  \<comment> \<open>the rejection of an outbound request, with its message\<close>

fun get_prop :: "jsval \<Rightarrow> string \<Rightarrow> js_error + jsval" where
  \<comment> \<open>\<open>v.name\<close> for the property names this program reads, none of which is a built-in of
      strings, numbers, booleans or arrays\<close>
  "get_prop JUndefined _ = Inl TypeError"
| "get_prop JNull _ = Inl TypeError"
| "get_prop (JObj kvs) k = Inr (case map_of kvs k of None \<Rightarrow> JUndefined | Some v \<Rightarrow> v)"
| "get_prop _ _ = Inr JUndefined"

fun opt_prop :: "jsval \<Rightarrow> string \<Rightarrow> jsval" where
  \<comment> \<open>\<open>v?.name\<close>\<close>
  "opt_prop (JObj kvs) k = (case map_of kvs k of None \<Rightarrow> JUndefined | Some v \<Rightarrow> v)"
| "opt_prop _ _ = JUndefined"

fun opt_index0 :: "jsval \<Rightarrow> jsval" where
  \<comment> \<open>\<open>v?.[0]\<close>\<close>
  "opt_index0 (JArr (x # _)) = x"
| "opt_index0 (JStr (c # _)) = JStr [c]"
| "opt_index0 (JObj kvs) = (case map_of kvs ''0'' of None \<Rightarrow> JUndefined | Some v \<Rightarrow> v)"
| "opt_index0 _ = JUndefined"

text \<open>
  The conversions of the platform that this program calls and does not define: they are
  parameters of the model, and every theorem holds for all of them. The conversion of an
  array or an object to a number or a string goes through its \<open>valueOf\<close> and \<open>toString\<close>; it
  throws a TypeError when neither is callable and gives a primitive, as for the parsed
  \<open>{"toString":0}\<close>.
\<close>

record platform =
  JSON_parse :: "string \<Rightarrow> jsval option"     \<comment> \<open>\<open>JSON.parse\<close>; \<open>None\<close> when it throws\<close>
  string_to_number :: "string \<Rightarrow> jsnum"     \<comment> \<open>\<open>Number(s)\<close> for a string\<close>
  object_to_number :: "jsval \<Rightarrow> jsnum option"
    \<comment> \<open>\<open>Number(v)\<close> for an array or an object; \<open>None\<close> when it throws\<close>
  to_string :: "jsval \<Rightarrow> string option"
    \<comment> \<open>\<open>String(v)\<close>, as a template literal applies it; \<open>None\<close> when it throws\<close>
  search_cache_key :: "string \<Rightarrow> jsnum \<Rightarrow> jsnum \<Rightarrow> string"
    \<comment> \<open>\<open>JSON.stringify({ q: query.toLowerCase(), page, pageSize, region, base })\<close> for the
        configured region and base URL\<close>

fun to_number :: "platform \<Rightarrow> jsval \<Rightarrow> js_error + jsnum" where
  \<comment> \<open>\<open>Number(v)\<close>, the conversion that arithmetic and \<open>Math.round\<close> apply to an operand\<close>
  "to_number P JUndefined = Inr NaN"
| "to_number P JNull = Inr (Fin 0)"
| "to_number P (JBool b) = Inr (if b then Fin 1 else Fin 0)"
| "to_number P (JNum n) = Inr n"
| "to_number P (JStr s) = Inr (string_to_number P s)"
| "to_number P v = (case object_to_number P v of None \<Rightarrow> Inl TypeError | Some n \<Rightarrow> Inr n)"

definition template_string :: "platform \<Rightarrow> jsval \<Rightarrow> js_error + string" where
  \<comment> \<open>\<open>${v}\<close> in a template literal\<close>
  "template_string P v = (case to_string P v of None \<Rightarrow> Inl TypeError | Some t \<Rightarrow> Inr t)"

record response =
  status :: int      \<comment> \<open>\<open>res.statusCode || 0\<close>\<close>
  body :: string     \<comment> \<open>the field \<open>text\<close> of the source\<close>
  json :: jsval      \<comment> \<open>the parsed body, \<open>null\<close> when it does not parse\<close>

definition ok2xx :: "response \<Rightarrow> bool" where
  \<comment> \<open>\<open>response.status >= 200 && response.status < 300\<close>\<close>
  "ok2xx r = (200 \<le> status r \<and> status r < 300)"

section \<open>Outbound requests\<close>

text \<open>
  \<open>requestJson\<close> sends one HTTPS request and resolves to status, text and parsed body, or
  rejects. What the outside world answers is a parameter: the outcome of the \<open>n\<close>-th request
  of a call (counted from 0), given what is requested; \<open>Inl m\<close> is a rejection with the
  message \<open>m\<close>, which the awaiting code sees as the thrown error \<open>Transport m\<close>.
\<close>

datatype request =
    GeminiGenerate string string jsval   \<comment> \<open>API version, model, payload\<close>
  | TokenExchange                        \<comment> \<open>the client-credentials exchange\<close>
  | OffSearch string string jsnum jsnum  \<comment> \<open>base URL, query, page, page size\<close>
  | OffProduct string string             \<comment> \<open>base URL, barcode\<close>

type_synonym network = "nat \<Rightarrow> request \<Rightarrow> string + response"

section \<open>callGemini\<close>

record gemini_state =
  cur_response :: "response option"      \<comment> \<open>the variable \<open>response\<close>, \<open>None\<close> for \<open>null\<close>\<close>
  lastError :: "string option"           \<comment> \<open>\<open>None\<close> for \<open>null\<close>\<close>
  attempts :: "(string \<times> string) list"   \<comment> \<open>the (model, version) pairs requested so far, oldest first\<close>

fun gemini_versions ::
  "network \<Rightarrow> jsval \<Rightarrow> string \<Rightarrow> string list \<Rightarrow> gemini_state
     \<Rightarrow> (js_error \<times> (string \<times> string) list) + gemini_state" where
  \<comment> \<open>the inner loop over \<open>GEMINI_API_VERSIONS\<close> for one model; a rejected request throws out
      of the function\<close>
  "gemini_versions net payload model [] st = Inr st"
| "gemini_versions net payload model (version # vs) st =
     (case net (length (attempts st)) (GeminiGenerate version model payload) of
        Inl m \<Rightarrow> Inl (Transport m, attempts st @ [(model, version)])
      | Inr r \<Rightarrow>
          if ok2xx r
          then Inr (st\<lparr>cur_response := Some r, attempts := attempts st @ [(model, version)]\<rparr>)
          else gemini_versions net payload model vs
                 \<lparr>cur_response = Some r, lastError = Some (body r),
                  attempts = attempts st @ [(model, version)]\<rparr>)"

definition succeeded :: "response option \<Rightarrow> bool" where
  \<comment> \<open>\<open>response && response.status >= 200 && response.status < 300\<close>\<close>
  "succeeded ro = (case ro of None \<Rightarrow> False | Some r \<Rightarrow> ok2xx r)"

fun gemini_models ::
  "network \<Rightarrow> jsval \<Rightarrow> string list \<Rightarrow> string list \<Rightarrow> gemini_state
     \<Rightarrow> (js_error \<times> (string \<times> string) list) + gemini_state" where
  \<comment> \<open>the outer loop over \<open>GEMINI_MODELS\<close>\<close>
  "gemini_models net payload [] versions st = Inr st"
| "gemini_models net payload (model # ms) versions st =
     (case gemini_versions net payload model versions st of
        Inl x \<Rightarrow> Inl x
      | Inr st' \<Rightarrow>
          if succeeded (cur_response st') then Inr st'
          else gemini_models net payload ms versions st')"

definition gemini_text :: "response \<Rightarrow> jsval" where
  \<comment> \<open>\<open>response.json?.candidates?.[0]?.content?.parts?.[0]?.text || ""\<close>\<close>
  "gemini_text r =
     js_or (opt_prop (opt_index0 (opt_prop (opt_prop (opt_index0 (opt_prop (json r) ''candidates''))
                                              ''content'') ''parts'')) ''text'')
           (JStr [])"

definition gemini_message :: "string option \<Rightarrow> string" where
  \<comment> \<open>\<open>lastError || "Gemini error"\<close>\<close>
  "gemini_message le = (case le of None \<Rightarrow> ''Gemini error'' | Some t \<Rightarrow> if t = [] then ''Gemini error'' else t)"

definition callGemini ::
  "network \<Rightarrow> string list \<Rightarrow> string list \<Rightarrow> jsval \<Rightarrow> (js_error + jsval) \<times> (string \<times> string) list" where
  \<comment> \<open>the result (the error thrown, or the text returned) and the pairs requested, in order\<close>
  "callGemini net GEMINI_MODELS GEMINI_API_VERSIONS payload =
     (case gemini_models net payload GEMINI_MODELS GEMINI_API_VERSIONS
             \<lparr>cur_response = None, lastError = None, attempts = []\<rparr> of
        Inl (e, tr) \<Rightarrow> (Inl e, tr)
      | Inr st \<Rightarrow>
          (case cur_response st of
             None \<Rightarrow> (Inl (Error (gemini_message (lastError st))), attempts st)
           | Some r \<Rightarrow>
               if status r < 200 \<or> status r \<ge> 300
               then (Inl (Error (gemini_message (lastError st))), attempts st)
               else (Inr (gemini_text r), attempts st)))"

section \<open>getAccessToken\<close>

record token_cache =
  token :: jsval       \<comment> \<open>\<open>null\<close> at start\<close>
  expiresAt :: jsnum   \<comment> \<open>0 at start\<close>

definition tokenCache0 :: token_cache where
  "tokenCache0 = \<lparr>token = JNull, expiresAt = Fin 0\<rparr>"

definition token_fresh :: "int \<Rightarrow> token_cache \<Rightarrow> bool" where
  \<comment> \<open>\<open>tokenCache.token && now < tokenCache.expiresAt - 10_000\<close>\<close>
  "token_fresh now tc =
     (truthy (token tc) \<and> js_lt (Fin (of_int now)) (js_sub (expiresAt tc) (Fin 10000)))"

definition getAccessToken ::
  "platform \<Rightarrow> network \<Rightarrow> int \<Rightarrow> token_cache \<Rightarrow> (js_error + jsval) \<times> token_cache \<times> nat" where
  \<comment> \<open>at time \<open>now = Date.now()\<close>, from the cache \<open>tc\<close>: the result, the cache afterwards and
      the number of exchange requests sent. \<open>tokenCache.token\<close> is assigned before
      \<open>data.expires_in * 1000\<close> is evaluated.\<close>
  "getAccessToken P net now tc =
     (if token_fresh now tc then (Inr (token tc), tc, 0)
      else
        (case net 0 TokenExchange of
           Inl m \<Rightarrow> (Inl (Transport m), tc, 1)
         | Inr r \<Rightarrow>
             if status r < 200 \<or> status r \<ge> 300
             then (Inl (Error (''FatSecret token error: '' @ body r)), tc, 1)
             else
               (case get_prop (json r) ''access_token'' of
                  Inl e \<Rightarrow> (Inl e, tc, 1)
                | Inr tok \<Rightarrow>
                    (case get_prop (json r) ''expires_in'' of
                       Inl e \<Rightarrow> (Inl e, tc\<lparr>token := tok\<rparr>, 1)
                     | Inr ei \<Rightarrow>
                         (case to_number P ei of
                            Inl e \<Rightarrow> (Inl e, tc\<lparr>token := tok\<rparr>, 1)
                          | Inr n \<Rightarrow>
                              let tc' = \<lparr>token = tok,
                                         expiresAt = js_add (Fin (of_int now)) (js_mul n (Fin 1000))\<rparr>
                              in (Inr (token tc'), tc', 1))))))"

section \<open>The response cache of the search route\<close>

record 'a cache_entry =
  data :: 'a
  entryExpiresAt :: int   \<comment> \<open>the field \<open>expiresAt\<close> of a cache entry, in milliseconds\<close>

type_synonym 'a search_cache = "string \<rightharpoonup> 'a cache_entry"

definition SEARCH_CACHE_TTL_MS :: int where
  "SEARCH_CACHE_TTL_MS = 5 * 60 * 1000"

definition cache_get :: "int \<Rightarrow> string \<Rightarrow> 'a search_cache \<Rightarrow> 'a option \<times> 'a search_cache" where
  \<comment> \<open>the lookup of the search route at time \<open>now\<close>: a hit returns the data; an expired
      entry is deleted and reported as a miss\<close>
  "cache_get now key c =
     (case c key of
        None \<Rightarrow> (None, c)
      | Some cached \<Rightarrow>
          if entryExpiresAt cached > now then (Some (data cached), c)
          else (None, c(key := None)))"

definition cache_put :: "int \<Rightarrow> string \<Rightarrow> 'a \<Rightarrow> 'a search_cache \<Rightarrow> 'a search_cache" where
  \<comment> \<open>\<open>searchCache.set(cacheKey, { data, expiresAt: Date.now() + SEARCH_CACHE_TTL_MS })\<close>\<close>
  "cache_put now key d c = c(key \<mapsto> \<lparr>data = d, entryExpiresAt = now + SEARCH_CACHE_TTL_MS\<rparr>)"

section \<open>Strings\<close>

text \<open>
  A string is the list of its code units; the model covers the code units below 256. The
  characters that \<open>trim\<close> removes in that range are tab, line feed, vertical tab, form feed,
  carriage return, space and no-break space.
\<close>

definition starts_with :: "string \<Rightarrow> string \<Rightarrow> bool" where
  \<comment> \<open>\<open>s.startsWith(p)\<close>\<close>
  "starts_with s p = (take (length p) s = p)"

definition ends_with :: "string \<Rightarrow> string \<Rightarrow> bool" where
  "ends_with s p = starts_with (rev s) (rev p)"

fun js_includes :: "string \<Rightarrow> string \<Rightarrow> bool" where
  \<comment> \<open>\<open>s.includes(p)\<close>\<close>
  "js_includes [] p = (p = [])"
| "js_includes (c # s) p = (starts_with (c # s) p \<or> js_includes s p)"

definition is_space :: "char \<Rightarrow> bool" where
  "is_space c = (c \<in> set [CHR 0x09, CHR 0x0A, CHR 0x0B, CHR 0x0C, CHR 0x0D, CHR 0x20, CHR 0xA0])"

definition is_alpha :: "char \<Rightarrow> bool" where
  \<comment> \<open>\<open>[a-zA-Z]\<close>\<close>
  "is_alpha c = (let n = (of_char c :: nat) in (65 \<le> n \<and> n \<le> 90) \<or> (97 \<le> n \<and> n \<le> 122))"

definition is_digit :: "char \<Rightarrow> bool" where
  \<comment> \<open>\<open>\d\<close>\<close>
  "is_digit c = (let n = (of_char c :: nat) in 48 \<le> n \<and> n \<le> 57)"

definition js_trim :: "string \<Rightarrow> string" where
  \<comment> \<open>\<open>s.trim()\<close>\<close>
  "js_trim s = rev (dropWhile is_space (rev (dropWhile is_space s)))"

section \<open>parseGeminiJson\<close>

definition strip_open_fence :: "string \<Rightarrow> string" where
  \<comment> \<open>\<open>s.replace(/^```[a-zA-Z]*\n?/, "")\<close>\<close>
  "strip_open_fence s =
     (if starts_with s ''```''
      then (case dropWhile is_alpha (drop 3 s) of
              [] \<Rightarrow> []
            | c # r \<Rightarrow> if c = CHR 0x0A then r else c # r)
      else s)"

definition strip_json_tick :: "string \<Rightarrow> string" where
  \<comment> \<open>\<open>s.replace(/^`json\n?/, "")\<close>\<close>
  "strip_json_tick s =
     (if starts_with s ''`json''
      then (case drop 5 s of
              [] \<Rightarrow> []
            | c # r \<Rightarrow> if c = CHR 0x0A then r else c # r)
      else s)"

definition strip_close_fence :: "string \<Rightarrow> string" where
  \<comment> \<open>\<open>s.replace(/```$/, "")\<close>: without the \<open>m\<close> flag, \<open>$\<close> is the end of the input\<close>
  "strip_close_fence s = (if ends_with s ''```'' then take (length s - 3) s else s)"

definition brace_match :: "string \<Rightarrow> string option" where
  \<comment> \<open>\<open>s.match(/\{[\s\S]*\}/)\<close>: from the first \<open>{\<close> to the last \<open>}\<close> after it\<close>
  "brace_match s =
     (let t = dropWhile (\<lambda>c. c \<noteq> CHR ''{'') s;
          u = rev (dropWhile (\<lambda>c. c \<noteq> CHR ''}'') (rev t))
      in if u = [] then None else Some u)"

definition clean_fences :: "string \<Rightarrow> string" where
  \<comment> \<open>the value of \<open>cleaned\<close> that is handed to \<open>JSON.parse\<close>\<close>
  "clean_fences text =
     (let cleaned = js_trim text;
          cleaned = (if starts_with cleaned ''```''
                     then js_trim (strip_close_fence (strip_open_fence cleaned)) else cleaned);
          cleaned = (if starts_with cleaned ''`json''
                     then js_trim (strip_close_fence (strip_json_tick cleaned)) else cleaned)
      in cleaned)"

definition parseGeminiJson :: "platform \<Rightarrow> string \<Rightarrow> jsval" where
  \<comment> \<open>for a string argument; the result \<open>JNull\<close> is \<open>null\<close>\<close>
  "parseGeminiJson P text =
     (if text = [] then JNull
      else case JSON_parse P (clean_fences text) of
             Some v \<Rightarrow> v
           | None \<Rightarrow>
               (case brace_match text of
                  None \<Rightarrow> JNull
                | Some m \<Rightarrow> (case JSON_parse P m of Some v \<Rightarrow> v | None \<Rightarrow> JNull)))"

section \<open>fetchFoods and the search route\<close>

definition world_url :: string where
  "world_url = ''https://world.openfoodfacts.org''"

definition baseUrls :: "string \<Rightarrow> string list" where
  \<comment> \<open>the configured base URL, then the world-wide one unless they are the same\<close>
  "baseUrls OFF_BASE_URL =
     (if OFF_BASE_URL = world_url then [OFF_BASE_URL] else [OFF_BASE_URL, world_url])"

definition off_error :: "response \<Rightarrow> js_error" where
  \<comment> \<open>\<open>new Error(`Open Food Facts error: ${response.text}`)\<close>\<close>
  "off_error r = Error (''Open Food Facts error: '' @ body r)"

definition safePage :: "jsnum \<Rightarrow> jsnum" where
  \<comment> \<open>\<open>Number(page) > 0 ? Number(page) : 1\<close>\<close>
  "safePage page = (if js_gt page (Fin 0) then page else Fin 1)"

definition safePageSize :: "jsnum \<Rightarrow> jsnum" where
  \<comment> \<open>\<open>Number(pageSize) > 0 ? Math.min(Number(pageSize), 50) : 20\<close>\<close>
  "safePageSize pageSize = (if js_gt pageSize (Fin 0) then Math_min pageSize (Fin 50) else Fin 20)"

record search_item =
  item_id :: jsval       \<comment> \<open>the field \<open>id\<close>\<close>
  name :: jsval
  brand :: jsval
  image_url :: jsval
  kcal_100g :: jsnum
  protein_100g :: jsnum
  fat_100g :: jsnum
  carbs_100g :: jsnum

record search_response =
  items :: "search_item list"
  count :: jsnum
  page :: jsnum
  pageSize :: jsnum

definition nutrient_source :: "jsval \<Rightarrow> string \<Rightarrow> string \<Rightarrow> jsval" where
  \<comment> \<open>\<open>nutriments[k100] || nutriments[k] || 0\<close>; \<open>nutriments\<close> is never null or undefined\<close>
  "nutrient_source nutriments k100 k =
     js_or (opt_prop nutriments k100) (js_or (opt_prop nutriments k) (JNum (Fin 0)))"

definition item_name :: "platform \<Rightarrow> jsval \<Rightarrow> js_error + jsval" where
  \<comment> \<open>\<open>item.product_name || item.product_name_es || `Producto ${item.code}`\<close>: the template
      is evaluated only when both names are falsy\<close>
  "item_name P item =
     (if truthy (opt_prop item ''product_name'') then Inr (opt_prop item ''product_name'')
      else if truthy (opt_prop item ''product_name_es'') then Inr (opt_prop item ''product_name_es'')
      else case template_string P (opt_prop item ''code'') of
             Inl e \<Rightarrow> Inl e
           | Inr t \<Rightarrow> Inr (JStr (''Producto '' @ t)))"

definition map_item :: "platform \<Rightarrow> jsval \<Rightarrow> js_error + search_item" where
  \<comment> \<open>the callback of \<open>products.map\<close>; a conversion that throws ends it\<close>
  "map_item P item =
     (case get_prop item ''nutriments'' of
        Inl e \<Rightarrow> Inl e
      | Inr n \<Rightarrow>
          let nutriments = js_or n (JObj []) in
          case to_number P (nutrient_source nutriments ''energy-kcal_100g'' ''energy-kcal'') of
            Inl e \<Rightarrow> Inl e
          | Inr kcal \<Rightarrow>
          case to_number P (nutrient_source nutriments ''proteins_100g'' ''proteins'') of
            Inl e \<Rightarrow> Inl e
          | Inr protein \<Rightarrow>
          case to_number P (nutrient_source nutriments ''fat_100g'' ''fat'') of
            Inl e \<Rightarrow> Inl e
          | Inr fat \<Rightarrow>
          case to_number P (nutrient_source nutriments ''carbohydrates_100g'' ''carbohydrates'') of
            Inl e \<Rightarrow> Inl e
          | Inr carbs \<Rightarrow>
          case item_name P item of
            Inl e \<Rightarrow> Inl e
          | Inr nm \<Rightarrow>
              Inr \<lparr>item_id = opt_prop item ''code'',
                   name = nm,
                   brand = js_or (opt_prop item ''brands'') (js_or (opt_prop item ''brand_owner'') (JStr [])),
                   image_url = js_or (opt_prop item ''image_front_small_url'')
                                 (js_or (opt_prop item ''image_front_url'')
                                    (js_or (opt_prop item ''image_url'') (JStr []))),
                   kcal_100g = Math_round kcal,
                   protein_100g = Math_round protein,
                   fat_100g = Math_round fat,
                   carbs_100g = Math_round carbs\<rparr>)"

fun map_items :: "platform \<Rightarrow> jsval list \<Rightarrow> js_error + search_item list" where
  \<comment> \<open>\<open>products.map(...)\<close>: the first callback that throws ends the whole map\<close>
  "map_items P [] = Inr []"
| "map_items P (x # xs) =
     (case map_item P x of
        Inl e \<Rightarrow> Inl e
      | Inr y \<Rightarrow> (case map_items P xs of Inl e \<Rightarrow> Inl e | Inr ys \<Rightarrow> Inr (y # ys)))"

fun search_loop ::
  "network \<Rightarrow> string \<Rightarrow> jsnum \<Rightarrow> jsnum \<Rightarrow> string list \<Rightarrow> nat \<Rightarrow> js_error option
     \<Rightarrow> jsval option \<times> js_error option" where
  \<comment> \<open>the loop over the base URLs (taken to be well-formed URLs): the values of
      \<open>searchJson\<close> and \<open>lastError\<close> after it\<close>
  "search_loop net query pg sz [] n lastErr = (None, lastErr)"
| "search_loop net query pg sz (baseUrl # rest) n lastErr =
     (case net n (OffSearch baseUrl query pg sz) of
        Inl m \<Rightarrow> search_loop net query pg sz rest (Suc n) (Some (Transport m))
      | Inr searchResponse \<Rightarrow>
          if status searchResponse < 200 \<or> status searchResponse \<ge> 300
          then search_loop net query pg sz rest (Suc n) (Some (off_error searchResponse))
          else if \<not> truthy (json searchResponse)
          then search_loop net query pg sz rest (Suc n) (Some (off_error searchResponse))
          else (Some (json searchResponse), lastErr))"

definition fetchFoods ::
  "platform \<Rightarrow> network \<Rightarrow> string \<Rightarrow> string \<Rightarrow> jsnum option \<Rightarrow> jsnum option
     \<Rightarrow> js_error + search_response" where
  \<comment> \<open>\<open>fetchFoods(query, page = 1, pageSize = 12)\<close> with numbers for arguments, as its caller
      passes them; \<open>None\<close> is an argument left out\<close>
  "fetchFoods P net OFF_BASE_URL query page_arg pageSize_arg =
     (let pageN = (case page_arg of None \<Rightarrow> Fin 1 | Some x \<Rightarrow> x);
          pageSizeN = (case pageSize_arg of None \<Rightarrow> Fin 12 | Some x \<Rightarrow> x)
      in case search_loop net query (safePage pageN) (safePageSize pageSizeN)
                (baseUrls OFF_BASE_URL) 0 None of
           (None, lastErr) \<Rightarrow>
             Inl (case lastErr of None \<Rightarrow> Error ''Open Food Facts error'' | Some e \<Rightarrow> e)
         | (Some searchJson, _) \<Rightarrow>
             (case js_or (opt_prop searchJson ''products'') (JArr []) of
                JArr products \<Rightarrow>
                  (case map_items P products of
                     Inl e \<Rightarrow> Inl e
                   | Inr its \<Rightarrow>
                       (case to_number P (js_or (opt_prop searchJson ''count'') (JNum (Fin 0))) of
                          Inl e \<Rightarrow> Inl e
                        | Inr cnt \<Rightarrow>
                            Inr \<lparr>items = its, count = cnt, page = safePage pageN,
                                 pageSize = safePageSize pageSizeN\<rparr>))
              | _ \<Rightarrow> Inl TypeError))"

datatype 'a reply =
    Success 'a             \<comment> \<open>200 with the data as JSON\<close>
  | BadRequest string      \<comment> \<open>400 with \<open>{ error: message }\<close>\<close>
  | Failure int js_error   \<comment> \<open>the status, with \<open>{ error: error.message || "Server error" }\<close>\<close>

definition number_param :: "platform \<Rightarrow> string option \<Rightarrow> jsnum \<Rightarrow> jsnum" where
  \<comment> \<open>\<open>Number(url.searchParams.get(name) || dflt)\<close>; \<open>None\<close> is a parameter that is absent\<close>
  "number_param P v dflt =
     (case v of None \<Rightarrow> dflt | Some s \<Rightarrow> if s = [] then dflt else string_to_number P s)"

definition search_route ::
  "platform \<Rightarrow> network \<Rightarrow> string \<Rightarrow> int \<Rightarrow> int \<Rightarrow> search_response search_cache
     \<Rightarrow> string option \<Rightarrow> string option \<Rightarrow> string option
     \<Rightarrow> search_response reply \<times> search_response search_cache" where
  \<comment> \<open>\<open>GET /api/search\<close> with the parameters \<open>q\<close>, \<open>page\<close> and \<open>page_size\<close>; \<open>now1\<close> is the clock
      at the lookup and \<open>now2\<close> the clock when the fetched data is stored\<close>
  "search_route P net OFF_BASE_URL now1 now2 searchCache q page_param page_size_param =
     (let pageN = number_param P page_param (Fin 1);
          pageSizeN = number_param P page_size_param (Fin 12)
      in case q of
           None \<Rightarrow> (BadRequest ''Missing query'', searchCache)
         | Some query \<Rightarrow>
             if query = [] then (BadRequest ''Missing query'', searchCache)
             else
               let cacheKey = search_cache_key P query pageN pageSizeN in
               (case cache_get now1 cacheKey searchCache of
                  (Some cached, c) \<Rightarrow> (Success cached, c)
                | (None, c) \<Rightarrow>
                    (case fetchFoods P net OFF_BASE_URL query (Some pageN) (Some pageSizeN) of
                       Inl e \<Rightarrow> (Failure 500 e, c)
                     | Inr d \<Rightarrow> (Success d, cache_put now2 cacheKey d c))))"

section \<open>findFoodByBarcode and the barcode route\<close>

record serving =
  serving_description :: jsval
  calories :: jsnum
  protein :: jsnum
  fat :: jsnum
  carbohydrate :: jsnum
  metric_serving_amount :: jsnum
  metric_serving_unit :: string

record barcode_product =
  food_id :: string
  product_name :: jsval        \<comment> \<open>the field \<open>name\<close>\<close>
  product_brand :: jsval       \<comment> \<open>the field \<open>brand\<close>\<close>
  product_image_url :: jsval   \<comment> \<open>the field \<open>image_url\<close>\<close>
  servings :: "serving list"

fun barcode_loop ::
  "network \<Rightarrow> string \<Rightarrow> string list \<Rightarrow> nat \<Rightarrow> response option \<Rightarrow> js_error option
     \<Rightarrow> response option \<times> js_error option" where
  \<comment> \<open>the loop over the base URLs: the values of \<open>response\<close> and \<open>lastError\<close> after it. The
      variable \<open>response\<close> is assigned as soon as a request resolves, before the checks.\<close>
  "barcode_loop net barcode [] n resp lastErr = (resp, lastErr)"
| "barcode_loop net barcode (baseUrl # rest) n resp lastErr =
     (case net n (OffProduct baseUrl barcode) of
        Inl m \<Rightarrow> barcode_loop net barcode rest (Suc n) resp (Some (Transport m))
      | Inr r \<Rightarrow>
          if status r < 200 \<or> status r \<ge> 300
          then barcode_loop net barcode rest (Suc n) (Some r) (Some (off_error r))
          else if \<not> truthy (json r)
          then barcode_loop net barcode rest (Suc n) (Some r) (Some (off_error r))
          else (Some r, lastErr))"

definition not_found_message :: "string \<Rightarrow> string" where
  \<comment> \<open>the message of the not-found error; \<open>CHR 0xF3\<close> is the letter o with an acute accent\<close>
  "not_found_message barcode = ''Producto no encontrado para c'' @ [CHR 0xF3] @ ''digo: '' @ barcode"

definition first_digits :: "string \<Rightarrow> string" where
  \<comment> \<open>what \<open>s.match(/(\d+)/)\<close> captures: the first run of digits, empty when there is no match\<close>
  "first_digits s = takeWhile is_digit (dropWhile (\<lambda>c. \<not> is_digit c) s)"

definition parseInt_digits :: "string \<Rightarrow> jsnum" where
  \<comment> \<open>\<open>parseInt\<close> of a non-empty string of digits: the double nearest to its decimal value
      (beyond 20 significant digits the standard allows an engine to approximate)\<close>
  "parseInt_digits ds = fl (of_nat (foldl (\<lambda>a c. 10 * a + (of_char c - 48)) 0 ds))"

definition servingGrams_of :: "string \<Rightarrow> jsnum" where
  \<comment> \<open>\<open>servingMatch ? parseInt(servingMatch[1]) : 100\<close>\<close>
  "servingGrams_of s = (if first_digits s = [] then Fin 100 else parseInt_digits (first_digits s))"

definition per100g_of :: "platform \<Rightarrow> jsval \<Rightarrow> string \<Rightarrow> string \<Rightarrow> js_error + jsnum" where
  \<comment> \<open>\<open>Math.round(nutriments[k100] || nutriments[k] || 0)\<close>, which converts its argument to a
      number\<close>
  "per100g_of P nutriments k100 k =
     (case to_number P (nutrient_source nutriments k100 k) of
        Inl e \<Rightarrow> Inl e
      | Inr x \<Rightarrow> Inr (Math_round x))"

definition base_serving :: "jsnum \<Rightarrow> jsnum \<Rightarrow> jsnum \<Rightarrow> jsnum \<Rightarrow> serving" where
  \<comment> \<open>the serving pushed first, from the four values of \<open>per100g\<close>\<close>
  "base_serving cal pro fa carb =
     \<lparr>serving_description = JStr ''100g'', calories = cal, protein = pro, fat = fa,
      carbohydrate = carb, metric_serving_amount = Fin 100, metric_serving_unit = ''g''\<rparr>"

definition scaled_serving :: "string \<Rightarrow> jsnum \<Rightarrow> jsnum \<Rightarrow> jsnum \<Rightarrow> jsnum \<Rightarrow> serving" where
  \<comment> \<open>the serving pushed for a serving size that is the string \<open>s\<close>\<close>
  "scaled_serving s cal pro fa carb =
     (let servingGrams = servingGrams_of s;
          ratio = js_div servingGrams (Fin 100)
      in \<lparr>serving_description = JStr s,
          calories = Math_round (js_mul cal ratio),
          protein = Math_round (js_mul pro ratio),
          fat = Math_round (js_mul fa ratio),
          carbohydrate = Math_round (js_mul carb ratio),
          metric_serving_amount = servingGrams,
          metric_serving_unit = ''g''\<rparr>)"

definition extra_servings ::
  "jsval \<Rightarrow> jsnum \<Rightarrow> jsnum \<Rightarrow> jsnum \<Rightarrow> jsnum \<Rightarrow> js_error + serving list" where
  \<comment> \<open>\<open>if (product.serving_size) { ... product.serving_size.match(...) ... }\<close>: only a string
      has a method \<open>match\<close>\<close>
  "extra_servings serving_size cal pro fa carb =
     (if \<not> truthy serving_size then Inr []
      else case serving_size of
             JStr s \<Rightarrow> Inr [scaled_serving s cal pro fa carb]
           | _ \<Rightarrow> Inl TypeError)"

definition build_product :: "platform \<Rightarrow> string \<Rightarrow> jsval \<Rightarrow> js_error + barcode_product" where
  \<comment> \<open>from \<open>const product = response.json.product\<close> to the return\<close>
  "build_product P barcode product =
     (case get_prop product ''nutriments'' of
        Inl e \<Rightarrow> Inl e
      | Inr n \<Rightarrow>
          let nutriments = js_or n (JObj []);
              imageUrl = js_or (opt_prop product ''image_front_url'')
                           (js_or (opt_prop product ''image_url'')
                              (js_or (opt_prop product ''image_front_small_url'') (JStr [])))
          in
          case per100g_of P nutriments ''energy-kcal_100g'' ''energy-kcal'' of
            Inl e \<Rightarrow> Inl e
          | Inr cal \<Rightarrow>
          case per100g_of P nutriments ''proteins_100g'' ''proteins'' of
            Inl e \<Rightarrow> Inl e
          | Inr pro \<Rightarrow>
          case per100g_of P nutriments ''fat_100g'' ''fat'' of
            Inl e \<Rightarrow> Inl e
          | Inr fa \<Rightarrow>
          case per100g_of P nutriments ''carbohydrates_100g'' ''carbohydrates'' of
            Inl e \<Rightarrow> Inl e
          | Inr carb \<Rightarrow>
          case extra_servings (opt_prop product ''serving_size'') cal pro fa carb of
            Inl e \<Rightarrow> Inl e
          | Inr extra \<Rightarrow>
              Inr \<lparr>food_id = barcode,
                   product_name = js_or (opt_prop product ''product_name'')
                                    (js_or (opt_prop product ''product_name_es'')
                                       (JStr (''Producto '' @ barcode))),
                   product_brand = js_or (opt_prop product ''brands'')
                                     (js_or (opt_prop product ''brand_owner'') (JStr [])),
                   product_image_url = imageUrl,
                   servings = base_serving cal pro fa carb # extra\<rparr>)"

definition findFoodByBarcode ::
  "platform \<Rightarrow> network \<Rightarrow> string \<Rightarrow> string \<Rightarrow> js_error + barcode_product" where
  "findFoodByBarcode P net OFF_BASE_URL barcode =
     (case barcode_loop net barcode (baseUrls OFF_BASE_URL) 0 None None of
        (None, lastErr) \<Rightarrow>
          Inl (case lastErr of None \<Rightarrow> Error ''Open Food Facts error'' | Some e \<Rightarrow> e)
      | (Some r, lastErr) \<Rightarrow>
          if \<not> truthy (json r)
          then Inl (case lastErr of None \<Rightarrow> Error ''Open Food Facts error'' | Some e \<Rightarrow> e)
          else if opt_prop (json r) ''status'' \<noteq> JNum (Fin 1)
          then Inl (Error (not_found_message barcode))
          else build_product P barcode (opt_prop (json r) ''product''))"

definition mentions_not_found :: "js_error \<Rightarrow> bool" where
  \<comment> \<open>\<open>String(error.message || "").includes("Producto no encontrado")\<close>; the message of a
      TypeError is the engine's own, in English\<close>
  "mentions_not_found e =
     (case e of
        Error m \<Rightarrow> js_includes m ''Producto no encontrado''
      | Transport m \<Rightarrow> js_includes m ''Producto no encontrado''
      | TypeError \<Rightarrow> False)"

definition barcode_route ::
  "platform \<Rightarrow> network \<Rightarrow> string \<Rightarrow> string option \<Rightarrow> barcode_product reply" where
  \<comment> \<open>\<open>GET /api/barcode\<close> with the parameter \<open>barcode\<close>\<close>
  "barcode_route P net OFF_BASE_URL barcode_param =
     (case barcode_param of
        None \<Rightarrow> BadRequest ''Missing barcode''
      | Some barcode \<Rightarrow>
          if barcode = [] then BadRequest ''Missing barcode''
          else case findFoodByBarcode P net OFF_BASE_URL barcode of
                 Inr product \<Rightarrow> Success product
               | Inl e \<Rightarrow> Failure (if mentions_not_found e then 404 else 500) e)"

section \<open>Notions used in the statements\<close>

definition candidate_pairs :: "string list \<Rightarrow> string list \<Rightarrow> (string \<times> string) list" where
  \<comment> \<open>the (model, version) pairs, models outermost\<close>
  "candidate_pairs models versions = concat (map (\<lambda>m. map (\<lambda>v. (m, v)) versions) models)"

definition pair_request :: "jsval \<Rightarrow> string \<times> string \<Rightarrow> request" where
  "pair_request payload p = GeminiGenerate (snd p) (fst p) payload"

fun try_pairs ::
  "network \<Rightarrow> jsval \<Rightarrow> (string \<times> string) list \<Rightarrow> gemini_state
     \<Rightarrow> (js_error \<times> (string \<times> string) list) + gemini_state" where
  \<comment> \<open>one loop over a list of pairs, with the body of the inner loop of \<open>callGemini\<close>\<close>
  "try_pairs net payload [] st = Inr st"
| "try_pairs net payload (p # ps) st =
     (case net (length (attempts st)) (pair_request payload p) of
        Inl m \<Rightarrow> Inl (Transport m, attempts st @ [p])
      | Inr r \<Rightarrow>
          if ok2xx r
          then Inr (st\<lparr>cur_response := Some r, attempts := attempts st @ [p]\<rparr>)
          else try_pairs net payload ps
                 \<lparr>cur_response = Some r, lastError = Some (body r), attempts = attempts st @ [p]\<rparr>)"

definition failed_at :: "network \<Rightarrow> jsval \<Rightarrow> nat \<Rightarrow> string \<times> string \<Rightarrow> bool" where
  \<comment> \<open>the \<open>i\<close>-th request, for the pair \<open>p\<close>, resolved with a status outside 200..299\<close>
  "failed_at net payload i p =
     (case net i (pair_request payload p) of Inl _ \<Rightarrow> False | Inr r \<Rightarrow> \<not> ok2xx r)"

definition last_error_body :: "network \<Rightarrow> jsval \<Rightarrow> (string \<times> string) list \<Rightarrow> string option" where
  \<comment> \<open>the body of the response to the last pair of \<open>ps\<close>, requested as the last of
      \<open>length ps\<close> requests\<close>
  "last_error_body net payload ps =
     (if ps = [] then None
      else case net (length ps - 1) (pair_request payload (last ps)) of
             Inl _ \<Rightarrow> None | Inr r \<Rightarrow> Some (body r))"

definition nutrient_fields :: "((search_item \<Rightarrow> jsnum) \<times> string \<times> string) list" where
  \<comment> \<open>each nutrient field of an item with the two keys it is read from\<close>
  "nutrient_fields =
     [(kcal_100g, ''energy-kcal_100g'', ''energy-kcal''),
      (protein_100g, ''proteins_100g'', ''proteins''),
      (fat_100g, ''fat_100g'', ''fat''),
      (carbs_100g, ''carbohydrates_100g'', ''carbohydrates'')]"

definition source_value :: "jsval \<Rightarrow> string \<Rightarrow> string \<Rightarrow> jsval" where
  \<comment> \<open>\<open>nutriments[k100] || nutriments[k] || 0\<close> with \<open>nutriments = item.nutriments || {}\<close>\<close>
  "source_value item k100 k =
     nutrient_source (js_or (opt_prop item ''nutriments'') (JObj [])) k100 k"

definition source_number :: "platform \<Rightarrow> jsval \<Rightarrow> string \<Rightarrow> string \<Rightarrow> jsnum" where
  \<comment> \<open>the number that \<open>Number(nutriments[k100] || nutriments[k] || 0)\<close> returns; the
      conversion has returned whenever the function around it has (\<open>map_item_converts\<close>,
      \<open>build_product_converts\<close>)\<close>
  "source_number P item k100 k =
     (case to_number P (source_value item k100 k) of Inr x \<Rightarrow> x | Inl _ \<Rightarrow> NaN)"

definition finite_num :: "jsnum \<Rightarrow> bool" where
  "finite_num x = (\<not> is_nan x \<and> \<not> is_inf x)"

definition rounds_to_neg_zero :: "jsnum \<Rightarrow> bool" where
  \<comment> \<open>\<open>-0\<close> itself, or a number in \<open>[-0.5, 0)\<close>\<close>
  "rounds_to_neg_zero x = (case x of NegZero \<Rightarrow> True | Fin r \<Rightarrow> - (1 / 2) \<le> r \<and> r < 0 | _ \<Rightarrow> False)"





definition per100g_cal :: "platform \<Rightarrow> jsval \<Rightarrow> jsnum" where
  \<comment> \<open>\<open>per100g.calories\<close> for a product; the next three are its protein, fat and carbohydrate\<close>
  "per100g_cal P product = Math_round (source_number P product ''energy-kcal_100g'' ''energy-kcal'')"

definition per100g_pro :: "platform \<Rightarrow> jsval \<Rightarrow> jsnum" where
  "per100g_pro P product = Math_round (source_number P product ''proteins_100g'' ''proteins'')"

definition per100g_fat :: "platform \<Rightarrow> jsval \<Rightarrow> jsnum" where
  "per100g_fat P product = Math_round (source_number P product ''fat_100g'' ''fat'')"

definition per100g_carb :: "platform \<Rightarrow> jsval \<Rightarrow> jsnum" where
  "per100g_carb P product = Math_round (source_number P product ''carbohydrates_100g'' ''carbohydrates'')"

definition used_product :: "network \<Rightarrow> string \<Rightarrow> string \<Rightarrow> jsval" where
  \<comment> \<open>\<open>response.json.product\<close> for the response that the loop ends with\<close>
  "used_product net base barcode =
     (case fst (barcode_loop net barcode (baseUrls base) 0 None None) of
        None \<Rightarrow> JUndefined | Some r \<Rightarrow> opt_prop (json r) ''product'')"

definition nonempty_string :: "jsval \<Rightarrow> bool" where
  "nonempty_string v = (case v of JStr s \<Rightarrow> s \<noteq> [] | _ \<Rightarrow> False)"

definition fenced :: "string \<Rightarrow> string \<Rightarrow> string" where
  \<comment> \<open>a document in a fenced block: the opening fence with its language tag, a line feed,
      the document, a line feed, the closing fence\<close>
  "fenced tag d = ''```'' @ tag @ [CHR 0x0A] @ d @ [CHR 0x0A] @ ''```''"

section \<open>Sample environments\<close>

text \<open>Concrete answers of the outside world and concrete products, for the examples below.\<close>

definition net_fail_then_ok :: network where
  \<comment> \<open>the first request is answered 500, every later one 200 with an empty object\<close>
  "net_fail_then_ok n q =
     (if n = 0 then Inr \<lparr>status = 500, body = ''down'', json = JNull\<rparr>
      else Inr \<lparr>status = 200, body = ''{}'', json = JObj []\<rparr>)"

definition net_reject :: network where
  \<comment> \<open>every request is rejected\<close>
  "net_reject n q = Inl ''socket hang up''"

definition net_empty_500 :: network where
  \<comment> \<open>every request is answered 500 with an empty body\<close>
  "net_empty_500 n q = Inr \<lparr>status = 500, body = [], json = JNull\<rparr>"

definition sample_platform :: platform where
  \<comment> \<open>conversions that agree with the platform's on the few arguments the examples hand them\<close>
  "sample_platform =
     \<lparr>JSON_parse = (\<lambda>s. if s = ''{}'' then Some (JObj []) else None),
      string_to_number = (\<lambda>s. if s = [] then Fin 0 else if s = ''2'' then Fin 2 else NaN),
      object_to_number = (\<lambda>v. if v = JObj [(''toString'', JNum (Fin 0))] then None else Some NaN),
      to_string = (\<lambda>v. case v of JStr s \<Rightarrow> Some s | _ \<Rightarrow> Some ''undefined''),
      search_cache_key = (\<lambda>q pg sz. q)\<rparr>"

definition net_token_ok :: network where
  \<comment> \<open>every request is answered 200 with a token that expires in a day\<close>
  "net_token_ok n q =
     Inr \<lparr>status = 200, body = ''{\"access_token\":\"abc\",\"expires_in\":86400}'',
          json = JObj [(''access_token'', JStr ''abc''), (''expires_in'', JNum (Fin 86400))]\<rparr>"

definition net_token_bad_expiry :: network where
  \<comment> \<open>every request is answered 200 with a token and an \<open>expires_in\<close> that is an object with
      no callable \<open>toString\<close>\<close>
  "net_token_bad_expiry n q =
     Inr \<lparr>status = 200, body = ''{\"access_token\":\"abc\",\"expires_in\":{\"toString\":0}}'',
          json = JObj [(''access_token'', JStr ''abc''),
                       (''expires_in'', JObj [(''toString'', JNum (Fin 0))])]\<rparr>"

definition stale_token_cache :: token_cache where
  \<comment> \<open>a token that expired long before the calls of the examples\<close>
  "stale_token_cache = \<lparr>token = JStr ''old'', expiresAt = Fin 5000\<rparr>"

definition no_products_response :: search_response where
  \<comment> \<open>what \<open>fetchFoods\<close> returns for an empty list of products, with no page or size given\<close>
  "no_products_response = \<lparr>items = [], count = Fin 0, page = Fin 1, pageSize = Fin 12\<rparr>"

definition net_ok_not_json :: network where
  \<comment> \<open>every request is answered 200 with a body that is not JSON\<close>
  "net_ok_not_json n q = Inr \<lparr>status = 200, body = ''oops'', json = JNull\<rparr>"

definition net_no_products :: network where
  \<comment> \<open>every request is answered 200 with an empty list of products\<close>
  "net_no_products n q =
     Inr \<lparr>status = 200, body = ''{\"products\":[]}'', json = JObj [(''products'', JArr [])]\<rparr>"




definition net_503_status0 :: network where
  \<comment> \<open>every request is answered 503 with a JSON body whose status flag is 0\<close>
  "net_503_status0 n q = Inr \<lparr>status = 503, body = ''{\"status\":0}'', json = JObj [(''status'', JNum (Fin 0))]\<rparr>"

definition milk :: jsval where
  \<comment> \<open>a product with 52.5 kcal per 100g and a serving size of 250g\<close>
  "milk = JObj [(''product_name'', JStr ''leche''),
                (''nutriments'', JObj [(''energy-kcal_100g'', JNum (Fin (105 / 2)))]),
                (''serving_size'', JStr ''250g'')]"

definition water :: jsval where
  \<comment> \<open>a product whose serving size is the empty string\<close>
  "water = JObj [(''product_name'', JStr ''agua''), (''serving_size'', JStr [])]"

definition net_agua :: network where
  \<comment> \<open>every request is answered 200 with one product: 52.5 kcal per 100g, 3 g of protein\<close>
  "net_agua n q =
     Inr \<lparr>status = 200,
          body = ''{\"products\":[{\"code\":\"1\",\"product_name\":\"agua\",\"nutriments\":{\"energy-kcal_100g\":52.5,\"proteins\":3}}]}'',
          json = JObj [(''products'',
                        JArr [JObj [(''code'', JStr ''1''), (''product_name'', JStr ''agua''),
                                    (''nutriments'', JObj [(''energy-kcal_100g'', JNum (Fin (105 / 2))),
                                                           (''proteins'', JNum (Fin 3))])]])]\<rparr>"

definition net_agua_negative :: network where
  \<comment> \<open>every request is answered 200 with one product whose energy is -0.25\<close>
  "net_agua_negative n q =
     Inr \<lparr>status = 200,
          body = ''{\"products\":[{\"code\":\"1\",\"product_name\":\"agua\",\"nutriments\":{\"energy-kcal_100g\":-0.25}}]}'',
          json = JObj [(''products'',
                        JArr [JObj [(''code'', JStr ''1''), (''product_name'', JStr ''agua''),
                                    (''nutriments'', JObj [(''energy-kcal_100g'', JNum (Fin (- (1 / 4))))])]])]\<rparr>"

definition net_milk :: network where
  \<comment> \<open>every request is answered 200 with the status flag 1 and the product \<open>milk\<close>\<close>
  "net_milk n q =
     Inr \<lparr>status = 200,
          body = ''{\"status\":1,\"product\":{\"product_name\":\"leche\",\"nutriments\":{\"energy-kcal_100g\":52.5},\"serving_size\":\"250g\"}}'',
          json = JObj [(''status'', JNum (Fin 1)), (''product'', milk)]\<rparr>"

definition net_water :: network where
  \<comment> \<open>every request is answered 200 with the status flag 1 and the product \<open>water\<close>\<close>
  "net_water n q =
     Inr \<lparr>status = 200,
          body = ''{\"status\":1,\"product\":{\"product_name\":\"agua\",\"serving_size\":\"\"}}'',
          json = JObj [(''status'', JNum (Fin 1)), (''product'', water)]\<rparr>"

section \<open>Doubles: the numbers that are not rounded\<close>

text \<open>
  \<open>fl\<close> leaves every double as it is: a value \<open>m * 2^j\<close> with \<open>|m| < 2^53\<close>, \<open>j \<ge> -1074\<close> and
  magnitude below \<open>2^1024\<close>. So the sums, differences and products of integers are exact as
  long as they stay below \<open>2^53\<close>.
\<close>

lemma bitlen_lower: "0 < p \<Longrightarrow> (2::rat) powi (bitlen p - 1) \<le> of_int p"
proof -
  assume p: "0 < p"
  from bitlen_bounds[OF p] have "2 ^ nat (bitlen p - 1) \<le> p" by simp
  then have "(of_int (2 ^ nat (bitlen p - 1)) :: rat) \<le> of_int p" by (simp only: of_int_le_iff)
  moreover have "bitlen p - 1 \<ge> 0" using p bitlen_eq_zero_iff[of p] bitlen_nonneg[of p] by linarith
  ultimately show ?thesis by (simp add: power_int_def)
qed

lemma bitlen_upper: "0 < p \<Longrightarrow> of_int p < (2::rat) powi (bitlen p)"
proof -
  assume p: "0 < p"
  from bitlen_bounds[OF p] have "p < 2 ^ nat (bitlen p)" by simp
  then have "(of_int p :: rat) < of_int (2 ^ nat (bitlen p))" by (simp only: of_int_less_iff)
  moreover have "bitlen p \<ge> 0" by (rule bitlen_nonneg)
  ultimately show ?thesis by (simp add: power_int_def)
qed

lemma ilog2_bounds:
  assumes "0 < a"
  shows "2 powi (ilog2 a) \<le> a \<and> a < 2 powi (ilog2 a + 1)"
proof -
  obtain p q where pq: "quotient_of a = (p, q)" by (cases "quotient_of a")
  then have q: "0 < q" by (rule quotient_of_denom_pos)
  from pq have a: "a = of_int p / of_int q" by (rule quotient_of_div)
  with assms q have p: "0 < p" by (simp add: zero_less_divide_iff)
  let ?k = "bitlen p - bitlen q"
  have pu: "of_int p < (2::rat) powi (bitlen p)" by (rule bitlen_upper[OF p])
  have pl: "(2::rat) powi (bitlen p - 1) \<le> of_int p" by (rule bitlen_lower[OF p])
  have qu: "of_int q < (2::rat) powi (bitlen q)" by (rule bitlen_upper[OF q])
  have ql: "(2::rat) powi (bitlen q - 1) \<le> of_int q" by (rule bitlen_lower[OF q])
  have qpos: "(0::rat) < of_int q" using q by simp
  have up: "a < 2 powi (?k + 1)"
  proof -
    have "(2::rat) powi (?k + 1) * 2 powi (bitlen q - 1) = 2 powi (bitlen p)"
      by (simp add: power_int_add[symmetric])
    moreover have "(2::rat) powi (?k + 1) * 2 powi (bitlen q - 1) \<le> 2 powi (?k + 1) * of_int q"
      using ql by (intro mult_left_mono) auto
    ultimately have "of_int p < (2::rat) powi (?k + 1) * of_int q" using pu by linarith
    then show ?thesis using qpos by (simp add: a pos_divide_less_eq)
  qed
  have lo: "2 powi (?k - 1) < a"
  proof -
    have "(2::rat) powi (?k - 1) * 2 powi (bitlen q) = 2 powi (bitlen p - 1)"
      by (simp add: power_int_add[symmetric])
    moreover have "(2::rat) powi (?k - 1) * of_int q < 2 powi (?k - 1) * 2 powi (bitlen q)"
      using qu by (intro mult_strict_left_mono) auto
    ultimately have "(2::rat) powi (?k - 1) * of_int q < of_int p" using pl by linarith
    then show ?thesis using qpos by (simp add: a pos_less_divide_eq)
  qed
  have step: "(2::rat) powi (?k - 1 + 1) = 2 powi ?k" by simp
  show ?thesis
  proof (cases "2 powi ?k \<le> a")
    case True
    with pq have "ilog2 a = ?k" by (simp add: ilog2_def Let_def)
    with True up show ?thesis by simp
  next
    case False
    with pq have "ilog2 a = ?k - 1" by (simp add: ilog2_def Let_def)
    with False lo show ?thesis by simp
  qed
qed

lemma round_half_even_int: "round_half_even (of_int N) = N"
  by (simp add: round_half_even_def Let_def)

lemma pow2_less_cancel: "(2::rat) powi x \<le> a \<Longrightarrow> a < 2 powi y \<Longrightarrow> x < y"
proof (rule ccontr)
  assume a: "(2::rat) powi x \<le> a" "a < 2 powi y" and n: "\<not> x < y"
  then have "y \<le> x" by simp
  then have "(2::rat) powi y \<le> 2 powi x" by (intro power_int_increasing) auto
  with a show False by linarith
qed

lemma fl_dyadic:
  assumes m: "m \<noteq> 0" "\<bar>m\<bar> < 2 ^ 53" and j: "- 1074 \<le> j"
    and big: "\<bar>of_int m * 2 powi j\<bar> < (2::rat) powi 1024"
  shows "fl (of_int m * 2 powi j) = Fin (of_int m * 2 powi j)"
proof -
  define r where "r = of_int m * (2::rat) powi j"
  define a where "a = \<bar>r\<bar>"
  define e0 where "e0 = ilog2 a"
  define e where "e = max e0 (- 1022)"
  define d where "d = j - e + 52"
  define q where "q = (2::rat) powi (e - 52)"
  define N where "N = \<bar>m\<bar> * 2 ^ nat d"
  have p2: "(0::rat) < 2 powi j" by simp
  have a_eq: "a = of_int \<bar>m\<bar> * 2 powi j" by (simp add: a_def r_def abs_mult)
  have rne: "r \<noteq> 0" using m(1) by (simp add: r_def)
  then have apos: "0 < a" by (simp add: a_def)
  have b: "2 powi e0 \<le> a \<and> a < 2 powi (e0 + 1)" unfolding e0_def by (rule ilog2_bounds[OF apos])
  have big': "a < 2 powi 1024" using big by (simp add: a_def r_def)
  have e0_lt: "e0 < 1024" using b big' by (intro pow2_less_cancel[of e0 a 1024]) auto
  have "(of_int \<bar>m\<bar> :: rat) < 2 ^ 53" using m(2) by (metis of_int_less_iff of_int_numeral of_int_power)
  then have "a < 2 ^ 53 * 2 powi j" unfolding a_eq using p2 by (intro mult_strict_right_mono) auto
  also have "\<dots> = 2 powi (53 + j)" by (simp add: power_int_add)
  finally have "a < 2 powi (53 + j)" .
  with b have e0_j: "e0 < 53 + j" by (intro pow2_less_cancel[of e0 a "53 + j"]) auto
  have d0: "0 \<le> d" using e0_j j by (auto simp: d_def e_def max_def)
  have split: "(2::rat) powi j = 2 powi d * q"
    by (simp add: d_def q_def power_int_add[symmetric])
  have dnat: "(2::rat) powi d = of_int (2 ^ nat d)"
    using d0 by (simp only: power_int_def if_True of_int_power of_int_numeral)
  have aN: "a = of_int N * q"
  proof -
    have "a = of_int \<bar>m\<bar> * (2 powi d * q)" by (simp only: a_eq split[symmetric])
    also have "\<dots> = (of_int \<bar>m\<bar> * of_int (2 ^ nat d)) * q" by (simp only: dnat mult.assoc)
    also have "\<dots> = of_int N * q" by (simp only: of_int_mult N_def)
    finally show ?thesis .
  qed
  have qpos: "0 < q" by (simp add: q_def)
  then have div: "a / q = of_int N" using aN by simp
  have Nne: "N \<noteq> 0" using m(1) by (simp add: N_def)
  have noover: "\<not> (e = 1023 \<and> 9007199254740992 \<le> N)"
  proof
    assume h: "e = 1023 \<and> 9007199254740992 \<le> N"
    then have q971: "q = 2 powi 971" by (simp add: q_def)
    from h have "(9007199254740992::int) \<le> N" by simp
    then have "(of_int 9007199254740992 :: rat) \<le> of_int N" by (simp only: of_int_le_iff)
    moreover have "(of_int 9007199254740992 :: rat) = 2 powi 53" by (simp add: power_int_def)
    ultimately have N53: "(2::rat) powi 53 \<le> of_int N" by (simp only:)
    have "(2::rat) powi 53 * q \<le> of_int N * q"
      using N53 qpos by (intro mult_right_mono) auto
    then have s1: "(2::rat) powi 53 * q \<le> a" unfolding aN[symmetric] .
    have s2: "(2::rat) powi 53 * 2 powi 971 \<le> a" using s1 unfolding q971 .
    have "(2::rat) powi (53 + 971) = 2 powi 53 * 2 powi 971"
      by (rule power_int_add) simp
    moreover have "(53::int) + 971 = 1024" by simp
    ultimately have "(2::rat) powi 1024 \<le> a" using s2 by (simp only:)
    with big' show False by linarith
  qed
  have sgn: "(if r < 0 then - a else a) = r" by (simp add: a_def)
  have unf: "fl r =
     (if r = 0 then Fin 0
      else if 1024 \<le> e0 then signed_inf (r < 0)
      else if round_half_even (a / q) = 0 then signed_zero (r < 0)
      else if e = 1023 \<and> 9007199254740992 \<le> round_half_even (a / q) then signed_inf (r < 0)
      else Fin (if r < 0 then - (of_int (round_half_even (a / q)) * q)
                else of_int (round_half_even (a / q)) * q))"
    by (simp only: fl_def Let_def a_def e0_def e_def q_def)
  have "fl r = Fin (if r < 0 then - (of_int N * q) else of_int N * q)"
    unfolding unf div round_half_even_int using rne e0_lt Nne noover by auto
  then have "fl r = Fin r" unfolding aN[symmetric] sgn .
  then show ?thesis unfolding r_def .
qed

lemma fl_int: "\<bar>n\<bar> < 2 ^ 53 \<Longrightarrow> fl (of_int n) = Fin (of_int n)"
proof (cases "n = 0")
  case True
  then show ?thesis by (simp add: fl_def)
next
  case False
  assume n: "\<bar>n\<bar> < 2 ^ 53"
  then have "(of_int \<bar>n\<bar> :: rat) < 2 ^ 53" by (metis of_int_less_iff of_int_numeral of_int_power)
  also have "(2::rat) ^ 53 < 2 powi 1024" by (simp add: power_int_def)
  finally have "\<bar>of_int n * 2 powi 0\<bar> < (2::rat) powi 1024" by simp
  from fl_dyadic[OF False n _ this] show ?thesis by simp
qed

lemma js_add_int:
  "\<bar>x + y\<bar> < 2 ^ 53 \<Longrightarrow> js_add (Fin (of_int x)) (Fin (of_int y)) = Fin (of_int (x + y))"
  using fl_int[of "x + y"] by (simp add: js_add_def)

lemma js_sub_int:
  "\<bar>x - y\<bar> < 2 ^ 53 \<Longrightarrow> js_sub (Fin (of_int x)) (Fin (of_int y)) = Fin (of_int (x - y))"
  using fl_int[of "x - y"] by (cases "y = 0") (simp_all add: js_sub_def js_neg_def js_add_def)

lemma js_mul_int:
  "0 \<le> x \<Longrightarrow> 0 \<le> y \<Longrightarrow> x * y < 2 ^ 53 \<Longrightarrow>
   js_mul (Fin (of_int x)) (Fin (of_int y)) = Fin (of_int (x * y))"
proof -
  assume a: "0 \<le> x" "0 \<le> y" "x * y < 2 ^ 53"
  then have "\<bar>x * y\<bar> < 2 ^ 53" by simp
  from fl_int[OF this] a show ?thesis
    by (auto simp: js_mul_def signed_zero_def)
qed

lemma js_lt_int: "js_lt (Fin (of_int x)) (Fin (of_int y)) = (x < y)"
  by simp

section \<open>callGemini: the order of the attempts\<close>

lemma gemini_versions_flat:
  "gemini_versions net payload model vs st = try_pairs net payload (map (\<lambda>v. (model, v)) vs) st"
  by (induction vs arbitrary: st) (auto simp: pair_request_def split: sum.splits)

lemma try_pairs_append:
  "\<not> succeeded (cur_response st) \<Longrightarrow>
   try_pairs net payload (ps @ qs) st =
     (case try_pairs net payload ps st of
        Inl x \<Rightarrow> Inl x
      | Inr st' \<Rightarrow> if succeeded (cur_response st') then Inr st' else try_pairs net payload qs st')"
  by (induction ps arbitrary: st) (auto simp: succeeded_def split: sum.splits)

lemma gemini_models_flat:
  "\<not> succeeded (cur_response st) \<Longrightarrow>
   gemini_models net payload ms versions st = try_pairs net payload (candidate_pairs ms versions) st"
proof (induction ms arbitrary: st)
  case Nil
  then show ?case by (simp add: candidate_pairs_def)
next
  case (Cons m ms)
  show ?case
    using Cons.prems Cons.IH
    by (auto simp: candidate_pairs_def gemini_versions_flat try_pairs_append split: sum.splits)
qed

lemma try_pairs_Inl:
  "try_pairs net payload ps st = Inl (e, tr) \<Longrightarrow>
   \<exists>k<length ps. tr = attempts st @ take (Suc k) ps \<and>
      (\<forall>i<k. failed_at net payload (length (attempts st) + i) (ps ! i)) \<and>
      (\<exists>m. net (length (attempts st) + k) (pair_request payload (ps ! k)) = Inl m \<and> e = Transport m)"
proof (induction ps arbitrary: st)
  case Nil
  then show ?case by simp
next
  case (Cons p ps)
  show ?case
  proof (cases "net (length (attempts st)) (pair_request payload p)")
    case (Inl m)
    with Cons.prems show ?thesis by (intro exI[of _ 0]) auto
  next
    case (Inr r)
    with Cons.prems have nok: "\<not> ok2xx r" by (auto split: if_splits)
    let ?st1 = "\<lparr>cur_response = Some r, lastError = Some (body r), attempts = attempts st @ [p]\<rparr>"
    from Cons.prems Inr nok have "try_pairs net payload ps ?st1 = Inl (e, tr)" by simp
    from Cons.IH[OF this] obtain k where k: "k < length ps"
      "tr = attempts ?st1 @ take (Suc k) ps"
      "\<forall>i<k. failed_at net payload (length (attempts ?st1) + i) (ps ! i)"
      "\<exists>m. net (length (attempts ?st1) + k) (pair_request payload (ps ! k)) = Inl m \<and> e = Transport m"
      by blast
    have f0: "failed_at net payload (length (attempts st)) p"
      using Inr nok by (simp add: failed_at_def)
    have "\<forall>i<Suc k. failed_at net payload (length (attempts st) + i) ((p # ps) ! i)"
      using k(3) f0 by (auto simp: less_Suc_eq_0_disj)
    with k show ?thesis by (intro exI[of _ "Suc k"]) auto
  qed
qed

lemma try_pairs_Inr:
  "try_pairs net payload ps st = Inr st' \<Longrightarrow>
   (\<exists>k<length ps. attempts st' = attempts st @ take (Suc k) ps \<and>
      (\<forall>i<k. failed_at net payload (length (attempts st) + i) (ps ! i)) \<and>
      (\<exists>r. net (length (attempts st) + k) (pair_request payload (ps ! k)) = Inr r \<and> ok2xx r \<and>
           cur_response st' = Some r))
   \<or> (attempts st' = attempts st @ ps \<and>
      (\<forall>i<length ps. failed_at net payload (length (attempts st) + i) (ps ! i)) \<and>
      (if ps = [] then st' = st
       else \<exists>r. net (length (attempts st) + (length ps - 1)) (pair_request payload (last ps)) = Inr r \<and>
              \<not> ok2xx r \<and> cur_response st' = Some r \<and> lastError st' = Some (body r)))"
proof (induction ps arbitrary: st)
  case Nil
  then show ?case by simp
next
  case (Cons p ps)
  show ?case
  proof (cases "net (length (attempts st)) (pair_request payload p)")
    case (Inl m)
    with Cons.prems show ?thesis by simp
  next
    case (Inr r)
    show ?thesis
    proof (cases "ok2xx r")
      case True
      with Cons.prems Inr have "st' = st\<lparr>cur_response := Some r, attempts := attempts st @ [p]\<rparr>"
        by simp
      with Inr True show ?thesis by (intro disjI1 exI[of _ 0]) auto
    next
      case False
      let ?st1 = "\<lparr>cur_response = Some r, lastError = Some (body r), attempts = attempts st @ [p]\<rparr>"
      have f0: "failed_at net payload (length (attempts st)) p"
        using Inr False by (simp add: failed_at_def)
      from Cons.prems Inr False have run: "try_pairs net payload ps ?st1 = Inr st'" by simp
      from Cons.IH[OF run] consider
        (stop) k where "k < length ps" "attempts st' = attempts ?st1 @ take (Suc k) ps"
          "\<forall>i<k. failed_at net payload (length (attempts ?st1) + i) (ps ! i)"
          "\<exists>r. net (length (attempts ?st1) + k) (pair_request payload (ps ! k)) = Inr r \<and> ok2xx r \<and>
               cur_response st' = Some r"
      | (all) "attempts st' = attempts ?st1 @ ps"
          "\<forall>i<length ps. failed_at net payload (length (attempts ?st1) + i) (ps ! i)"
          "if ps = [] then st' = ?st1
           else \<exists>r. net (length (attempts ?st1) + (length ps - 1)) (pair_request payload (last ps)) = Inr r \<and>
                  \<not> ok2xx r \<and> cur_response st' = Some r \<and> lastError st' = Some (body r)"
        by blast
      then show ?thesis
      proof cases
        case stop
        note k = stop
        have "\<forall>i<Suc k. failed_at net payload (length (attempts st) + i) ((p # ps) ! i)"
          using k(3) f0 by (auto simp: less_Suc_eq_0_disj)
        with k show ?thesis by (intro disjI1 exI[of _ "Suc k"]) auto
      next
        case all
        note a = all
        have all: "\<forall>i<length (p # ps). failed_at net payload (length (attempts st) + i) ((p # ps) ! i)"
          using a(2) f0 by (auto simp: less_Suc_eq_0_disj)
        have lastp: "\<exists>r. net (length (attempts st) + (length (p # ps) - 1)) (pair_request payload (last (p # ps))) = Inr r \<and>
                  \<not> ok2xx r \<and> cur_response st' = Some r \<and> lastError st' = Some (body r)"
        proof (cases "ps = []")
          case True
          with a(3) Inr False show ?thesis by simp
        next
          case False
          then have "length ps - 1 + 1 = length ps" by (cases ps) auto
          with a(3) False show ?thesis by (auto simp: Suc_diff_Suc)
        qed
        from a(1) all lastp show ?thesis by (intro disjI2) auto
      qed
    qed
  qed
qed

lemma callGemini_flat:
  "callGemini net models versions payload =
     (case try_pairs net payload (candidate_pairs models versions)
             \<lparr>cur_response = None, lastError = None, attempts = []\<rparr> of
        Inl (e, tr) \<Rightarrow> (Inl e, tr)
      | Inr st \<Rightarrow>
          (if succeeded (cur_response st)
           then (Inr (gemini_text (the (cur_response st))), attempts st)
           else (Inl (Error (gemini_message (lastError st))), attempts st)))"
  by (auto simp: callGemini_def gemini_models_flat succeeded_def ok2xx_def split: sum.splits option.splits)


text \<open>
  C1, as amended. \<open>callGemini\<close> requests the (model, version) pairs in the nested order,
  models outermost: the pairs requested are a prefix of that list, and every request
  but the last was answered with a status outside 200..299. It returns only when the
  last request was answered 2xx, so nothing is requested after the first 2xx. It throws
  its own error only after every pair was requested and answered non-2xx, and the message
  is the body of the last answer, or \<open>Gemini error\<close> when that body is empty or there was
  no pair at all. The only other error is a rejected request, thrown at once.
\<close>

theorem callGemini_order:
  assumes run: "callGemini net models versions payload = (res, tr)"
  shows "tr = take (length tr) (candidate_pairs models versions) \<and>
         length tr \<le> length (candidate_pairs models versions) \<and>
         (\<forall>i. Suc i < length tr \<longrightarrow> failed_at net payload i (candidate_pairs models versions ! i)) \<and>
         (\<forall>v. res = Inr v \<longrightarrow>
             tr \<noteq> [] \<and>
             (\<exists>r. net (length tr - 1) (pair_request payload (last tr)) = Inr r \<and> ok2xx r \<and>
                  v = gemini_text r)) \<and>
         (\<forall>m. res = Inl (Error m) \<longrightarrow>
             tr = candidate_pairs models versions \<and>
             (\<forall>i<length tr. failed_at net payload i (tr ! i)) \<and>
             m = gemini_message (last_error_body net payload tr)) \<and>
         (\<forall>m. res = Inl (Transport m) \<longrightarrow>
             tr \<noteq> [] \<and> net (length tr - 1) (pair_request payload (last tr)) = Inl m) \<and>
         res \<noteq> Inl TypeError"
proof -
  let ?ps = "candidate_pairs models versions"
  let ?st0 = "\<lparr>cur_response = None, lastError = None, attempts = []\<rparr>"
  show ?thesis
  proof (cases "try_pairs net payload ?ps ?st0")
    case (Inl x)
    obtain e tr' where x: "x = (e, tr')" by (cases x)
    from run Inl x have res: "res = Inl e" "tr = tr'" by (simp_all add: callGemini_flat)
    from try_pairs_Inl[OF Inl[unfolded x]] obtain k m where k: "k < length ?ps"
      "tr' = take (Suc k) ?ps" "\<forall>i<k. failed_at net payload i (?ps ! i)"
      "net k (pair_request payload (?ps ! k)) = Inl m" "e = Transport m"
      by auto
    have len: "length tr = Suc k" using k(1,2) res by simp
    have lst: "last tr = ?ps ! k" using k(1,2) res by (simp add: take_Suc_conv_app_nth)
    show ?thesis using k res len lst by auto
  next
    case (Inr st')
    from try_pairs_Inr[OF Inr] consider
      (stop) k r where "k < length ?ps" "attempts st' = take (Suc k) ?ps"
        "\<forall>i<k. failed_at net payload i (?ps ! i)"
        "net k (pair_request payload (?ps ! k)) = Inr r" "ok2xx r" "cur_response st' = Some r"
    | (all) "attempts st' = ?ps" "\<forall>i<length ?ps. failed_at net payload i (?ps ! i)"
        "?ps = [] \<longrightarrow> st' = ?st0"
        "?ps \<noteq> [] \<longrightarrow> (\<exists>r. net (length ?ps - 1) (pair_request payload (last ?ps)) = Inr r \<and>
                \<not> ok2xx r \<and> cur_response st' = Some r \<and> lastError st' = Some (body r))"
      by (auto split: if_splits)
    then show ?thesis
    proof cases
      case stop
      from run Inr stop have res: "res = Inr (gemini_text r)" "tr = take (Suc k) ?ps"
        by (simp_all add: callGemini_flat succeeded_def)
      have len: "length tr = Suc k" using stop(1) res by simp
      have lst: "last tr = ?ps ! k" using stop(1) res by (simp add: take_Suc_conv_app_nth)
      show ?thesis using stop res len lst by auto
    next
      case all
      have nsucc: "\<not> succeeded (cur_response st')"
        using all(3,4) by (cases "?ps = []") (auto simp: succeeded_def)
      have le: "lastError st' = last_error_body net payload ?ps"
        using all(3,4) by (cases "?ps = []") (auto simp: last_error_body_def)
      from run Inr nsucc le all(1) have res: "res = Inl (Error (gemini_message (last_error_body net payload ?ps)))" "tr = ?ps"
        by (auto simp: callGemini_flat)
      show ?thesis using all(2) res by auto
    qed
  qed
qed


theorem callGemini_order_witness:
  "callGemini net_fail_then_ok [''m1'', ''m2''] [''v1'', ''v2''] JNull
     = (Inr (JStr []), [(''m1'', ''v1''), (''m1'', ''v2'')]) \<and>
   [(''m1'', ''v1''), (''m1'', ''v2'')]
     = take 2 (candidate_pairs [''m1'', ''m2''] [''v1'', ''v2'']) \<and>
   failed_at net_fail_then_ok JNull 0 (''m1'', ''v1'')"
proof -
  have run: "callGemini net_fail_then_ok [''m1'', ''m2''] [''v1'', ''v2''] JNull
     = (Inr (JStr []), [(''m1'', ''v1''), (''m1'', ''v2'')])"
    by (simp add: callGemini_def net_fail_then_ok_def ok2xx_def succeeded_def gemini_text_def
        js_or_def)
  from callGemini_order[OF run] run show ?thesis
    by (simp add: candidate_pairs_def)
qed

text \<open>
  C1 as stated fails where the last error body is empty: the error then carries the
  fixed message, not the body.
\<close>

theorem callGemini_empty_body_counterexample:
  "callGemini net_empty_500 [''m''] [''v''] JNull = (Inl (Error ''Gemini error''), [(''m'', ''v'')]) \<and>
   net_empty_500 0 (GeminiGenerate ''v'' ''m'' JNull) = Inr \<lparr>status = 500, body = [], json = JNull\<rparr>"
  by (simp add: callGemini_def net_empty_500_def ok2xx_def succeeded_def gemini_message_def)

text \<open>
  A rejected request is not caught in \<open>callGemini\<close>: it ends the call at once, with the
  pairs after it not requested.
\<close>

lemma callGemini_rejected_example:
  "callGemini net_reject [''m1'', ''m2''] [''v''] JNull
     = (Inl (Transport ''socket hang up''), [(''m1'', ''v'')])"
  by (simp add: callGemini_def net_reject_def)

section \<open>The response cache\<close>

lemma search_route_cases:
  assumes "query \<noteq> []"
  shows "search_route P net base now1 now2 c (Some query) page_param page_size_param =
     (let pg = number_param P page_param (Fin 1);
          sz = number_param P page_size_param (Fin 12);
          key = search_cache_key P query pg sz;
          fetched = fetchFoods P net base query (Some pg) (Some sz)
      in case c key of
           None \<Rightarrow>
             (case fetched of
                Inl err \<Rightarrow> (Failure 500 err, c)
              | Inr d \<Rightarrow> (Success d, c(key \<mapsto> \<lparr>data = d, entryExpiresAt = now2 + 300000\<rparr>)))
         | Some e \<Rightarrow>
             if now1 < entryExpiresAt e then (Success (data e), c)
             else (case fetched of
                     Inl err \<Rightarrow> (Failure 500 err, c(key := None))
                   | Inr d \<Rightarrow> (Success d, c(key \<mapsto> \<lparr>data = d, entryExpiresAt = now2 + 300000\<rparr>))))"
  using assms
  by (simp add: search_route_def cache_get_def cache_put_def SEARCH_CACHE_TTL_MS_def Let_def
      split: option.splits sum.splits)

lemma fetch_no_products:
  "fetchFoods sample_platform net_no_products world_url ''leche'' (Some (Fin 1)) (Some (Fin 12))
     = Inr no_products_response"
  by (simp add: fetchFoods_def baseUrls_def net_no_products_def safePage_def safePageSize_def
      Math_min_def js_gt_def js_or_def no_products_response_def Let_def)

lemma fetch_rejected:
  "fetchFoods sample_platform net_reject world_url ''leche'' (Some (Fin 1)) (Some (Fin 12))
     = Inl (Transport ''socket hang up'')"
  by (simp add: fetchFoods_def baseUrls_def net_reject_def Let_def)

text \<open>
  C6. For the two operations on the map: a \<open>put\<close> at time \<open>t\<close> followed by a \<open>get\<close> of the
  same key before \<open>t\<close> plus five minutes, in particular at once, returns the stored value
  and leaves the map as it is; a \<open>get\<close> at or after the expiry of an entry reports a miss
  and removes that entry and no other.

  The map is read and written by the search route only, and the same holds of the route.
  A request whose key has no entry, or an entry that has expired, fetches; when the fetch
  returns, the route stores the data under the key with an expiry five minutes after the
  clock at that moment. A request for the same key before that expiry is answered with
  the stored data, whatever the provider would answer, and leaves the map as it is. A
  request at or after the expiry is not answered from the map: the route fetches again and
  the expired entry is removed at that lookup, so that when the fetch fails the key is
  left with no entry, and when it returns the key holds the new data.
\<close>

theorem cache_put_get:
  "(t' < t + 5 * 60 * 1000 \<longrightarrow>
      cache_get t' k (cache_put t k v m) = (Some v, cache_put t k v m)) \<and>
   (m k = Some x \<and> entryExpiresAt x \<le> t' \<longrightarrow>
      fst (cache_get t' k m) = None \<and> snd (cache_get t' k m) k = None \<and>
      (\<forall>j. j \<noteq> k \<longrightarrow> snd (cache_get t' k m) j = m j)) \<and>
   (t + 5 * 60 * 1000 \<le> t' \<longrightarrow>
      fst (cache_get t' k (cache_put t k v m)) = None \<and>
      snd (cache_get t' k (cache_put t k v m)) k = None) \<and>
   (query \<noteq> [] \<longrightarrow>
    (let pg = number_param P page_param (Fin 1);
         sz = number_param P page_size_param (Fin 12);
         key = search_cache_key P query pg sz;
         route = (\<lambda>nt n1 n2 ch.
                    search_route P nt base n1 n2 ch (Some query) page_param page_size_param);
         fetch = (\<lambda>nt. fetchFoods P nt base query (Some pg) (Some sz));
         missing = (case c key of None \<Rightarrow> True | Some e \<Rightarrow> entryExpiresAt e \<le> now1)
     in (\<forall>e. c key = Some e \<and> now1 < entryExpiresAt e \<longrightarrow>
           route net now1 now2 c = (Success (data e), c)) \<and>
        (\<forall>d. missing \<and> fetch net = Inr d \<longrightarrow>
           route net now1 now2 c
             = (Success d, c(key \<mapsto> \<lparr>data = d, entryExpiresAt = now2 + 5 * 60 * 1000\<rparr>)) \<and>
           (\<forall>net' n1 n2. n1 < now2 + 5 * 60 * 1000 \<longrightarrow>
              route net' n1 n2 (snd (route net now1 now2 c))
                = (Success d, snd (route net now1 now2 c))) \<and>
           (\<forall>net' n1 n2 err. now2 + 5 * 60 * 1000 \<le> n1 \<and> fetch net' = Inl err \<longrightarrow>
              route net' n1 n2 (snd (route net now1 now2 c)) = (Failure 500 err, c(key := None))) \<and>
           (\<forall>net' n1 n2 d'. now2 + 5 * 60 * 1000 \<le> n1 \<and> fetch net' = Inr d' \<longrightarrow>
              route net' n1 n2 (snd (route net now1 now2 c))
                = (Success d', c(key \<mapsto> \<lparr>data = d', entryExpiresAt = n2 + 5 * 60 * 1000\<rparr>)))) \<and>
        (\<forall>err. missing \<and> fetch net = Inl err \<longrightarrow>
           route net now1 now2 c = (Failure 500 err, c(key := None)))))"
proof (intro conjI impI)
  assume q: "query \<noteq> []"
  show "let pg = number_param P page_param (Fin 1);
         sz = number_param P page_size_param (Fin 12);
         key = search_cache_key P query pg sz;
         route = (\<lambda>nt n1 n2 ch.
                    search_route P nt base n1 n2 ch (Some query) page_param page_size_param);
         fetch = (\<lambda>nt. fetchFoods P nt base query (Some pg) (Some sz));
         missing = (case c key of None \<Rightarrow> True | Some e \<Rightarrow> entryExpiresAt e \<le> now1)
     in (\<forall>e. c key = Some e \<and> now1 < entryExpiresAt e \<longrightarrow>
           route net now1 now2 c = (Success (data e), c)) \<and>
        (\<forall>d. missing \<and> fetch net = Inr d \<longrightarrow>
           route net now1 now2 c
             = (Success d, c(key \<mapsto> \<lparr>data = d, entryExpiresAt = now2 + 5 * 60 * 1000\<rparr>)) \<and>
           (\<forall>net' n1 n2. n1 < now2 + 5 * 60 * 1000 \<longrightarrow>
              route net' n1 n2 (snd (route net now1 now2 c))
                = (Success d, snd (route net now1 now2 c))) \<and>
           (\<forall>net' n1 n2 err. now2 + 5 * 60 * 1000 \<le> n1 \<and> fetch net' = Inl err \<longrightarrow>
              route net' n1 n2 (snd (route net now1 now2 c)) = (Failure 500 err, c(key := None))) \<and>
           (\<forall>net' n1 n2 d'. now2 + 5 * 60 * 1000 \<le> n1 \<and> fetch net' = Inr d' \<longrightarrow>
              route net' n1 n2 (snd (route net now1 now2 c))
                = (Success d', c(key \<mapsto> \<lparr>data = d', entryExpiresAt = n2 + 5 * 60 * 1000\<rparr>)))) \<and>
        (\<forall>err. missing \<and> fetch net = Inl err \<longrightarrow>
           route net now1 now2 c = (Failure 500 err, c(key := None)))"
    unfolding Let_def
    by (auto simp: search_route_cases[OF q] Let_def split: option.splits)
qed (auto simp: cache_get_def cache_put_def SEARCH_CACHE_TTL_MS_def)

theorem cache_put_get_witness:
  "cache_get 1000 ''k'' (cache_put 1000 ''k'' (7::nat) Map.empty)
     = (Some 7, cache_put 1000 ''k'' 7 Map.empty) \<and>
   fst (cache_get 301000 ''k'' (cache_put 1000 ''k'' (7::nat) Map.empty)) = None \<and>
   snd (cache_get 301000 ''k'' (cache_put 1000 ''k'' (7::nat) Map.empty)) ''k'' = None \<and>
   search_route sample_platform net_no_products world_url 1000 1200 Map.empty (Some ''leche'') None None
     = (Success no_products_response,
        [''leche'' \<mapsto> \<lparr>data = no_products_response, entryExpiresAt = 301200\<rparr>]) \<and>
   search_route sample_platform net_reject world_url 1200 1300
       [''leche'' \<mapsto> \<lparr>data = no_products_response, entryExpiresAt = 301200\<rparr>] (Some ''leche'') None None
     = (Success no_products_response,
        [''leche'' \<mapsto> \<lparr>data = no_products_response, entryExpiresAt = 301200\<rparr>]) \<and>
   search_route sample_platform net_reject world_url 301200 301300
       [''leche'' \<mapsto> \<lparr>data = no_products_response, entryExpiresAt = 301200\<rparr>] (Some ''leche'') None None
     = (Failure 500 (Transport ''socket hang up''), Map.empty)"
proof -
  have key: "search_cache_key sample_platform ''leche'' (Fin 1) (Fin 12) = ''leche''"
    by (simp add: sample_platform_def)
  have np: "number_param sample_platform None (Fin 1) = Fin 1"
           "number_param sample_platform None (Fin 12) = Fin 12"
    by (simp_all add: number_param_def)
  note A = cache_put_get[where t' = 1000 and t = 1000 and k = "''k''" and v = "7::nat"
      and m = Map.empty]
  note B = cache_put_get[where t' = 301000 and t = 1000 and k = "''k''" and v = "7::nat"
      and m = Map.empty]
  note T = cache_put_get[where P = sample_platform and query = "''leche''" and page_param = None
      and page_size_param = None and base = world_url and c = Map.empty and ?now1.0 = 1000
      and ?now2.0 = 1200 and net = net_no_products and v = "7::nat", unfolded Let_def np key]
  from A have a: "cache_get 1000 ''k'' (cache_put 1000 ''k'' (7::nat) Map.empty)
     = (Some 7, cache_put 1000 ''k'' 7 Map.empty)" by simp
  from B have b: "fst (cache_get 301000 ''k'' (cache_put 1000 ''k'' (7::nat) Map.empty)) = None \<and>
     snd (cache_get 301000 ''k'' (cache_put 1000 ''k'' (7::nat) Map.empty)) ''k'' = None" by simp
  from T fetch_no_products
  have first: "search_route sample_platform net_no_products world_url 1000 1200 Map.empty
                 (Some ''leche'') None None
     = (Success no_products_response,
        [''leche'' \<mapsto> \<lparr>data = no_products_response, entryExpiresAt = 301200\<rparr>])"
    by simp
  from T fetch_no_products first
  have second: "search_route sample_platform net_reject world_url 1200 1300
       [''leche'' \<mapsto> \<lparr>data = no_products_response, entryExpiresAt = 301200\<rparr>] (Some ''leche'') None None
     = (Success no_products_response,
        [''leche'' \<mapsto> \<lparr>data = no_products_response, entryExpiresAt = 301200\<rparr>])"
    by simp
  from T fetch_no_products first fetch_rejected
  have third: "search_route sample_platform net_reject world_url 301200 301300
       [''leche'' \<mapsto> \<lparr>data = no_products_response, entryExpiresAt = 301200\<rparr>] (Some ''leche'') None None
     = (Failure 500 (Transport ''socket hang up''), Map.empty)"
    by simp
  from a b first second third show ?thesis by simp
qed

section \<open>getAccessToken\<close>

lemma get_prop_opt: "v \<noteq> JNull \<Longrightarrow> v \<noteq> JUndefined \<Longrightarrow> get_prop v k = Inr (opt_prop v k)"
  by (cases v) auto

lemma token_sum_example: "js_add (Fin 1000) (js_mul (Fin 86400) (Fin 1000)) = Fin 86401000"
  by code_simp

lemma token_margin_example: "js_sub (Fin 86401000) (Fin 10000) = Fin 86391000"
  by code_simp

lemma token_margin_start: "js_sub (Fin 0) (Fin 10000) = Fin (- 10000)"
  by code_simp

lemma token_margin_stale: "js_sub (Fin 5000) (Fin 10000) = Fin (- 5000)"
  by code_simp

lemma token_sum_stale: "js_add (Fin 1000000) (js_mul (Fin 86400) (Fin 1000)) = Fin 87400000"
  by code_simp

lemma stale_not_fresh: "\<not> token_fresh 1000000 stale_token_cache"
  by (simp add: token_fresh_def stale_token_cache_def token_margin_stale)

text \<open>
  C2, as amended. When the cached token is truthy (a non-empty string, say) and
  \<open>now < expiresAt - 10000\<close>, \<open>getAccessToken\<close> returns the cached token, leaves the cache
  as it is and sends no request. Otherwise it sends exactly one exchange request; when
  that is answered 2xx with a body that parsed to a value other than \<open>null\<close> and whose
  \<open>expires_in\<close> converts to a number, it stores the \<open>access_token\<close> of the answer and
  \<open>expiresAt = now + expires_in * 1000\<close> (in the arithmetic of doubles) and returns the
  stored token. On integers below \<open>2^53\<close> the arithmetic of doubles is that of the
  integers: the test is \<open>now < expiresAt - 10000\<close> and the stored value is
  \<open>now + expires_in * 1000\<close>.
\<close>

theorem getAccessToken_cached_or_exchanged:
  "(truthy (token tc) \<and> js_lt (Fin (of_int now)) (js_sub (expiresAt tc) (Fin 10000)) \<longrightarrow>
      getAccessToken P net now tc = (Inr (token tc), tc, 0)) \<and>
   (\<not> (truthy (token tc) \<and> js_lt (Fin (of_int now)) (js_sub (expiresAt tc) (Fin 10000))) \<longrightarrow>
      snd (snd (getAccessToken P net now tc)) = 1 \<and>
      (\<forall>r n. net 0 TokenExchange = Inr r \<and> 200 \<le> status r \<and> status r < 300 \<and>
           json r \<noteq> JNull \<and> json r \<noteq> JUndefined \<and>
           to_number P (opt_prop (json r) ''expires_in'') = Inr n \<longrightarrow>
         getAccessToken P net now tc =
           (Inr (opt_prop (json r) ''access_token''),
            \<lparr>token = opt_prop (json r) ''access_token'',
             expiresAt = js_add (Fin (of_int now)) (js_mul n (Fin 1000))\<rparr>,
            1))) \<and>
   (\<forall>x. expiresAt tc = Fin (of_int x) \<and> \<bar>x - 10000\<bar> < 2 ^ 53 \<longrightarrow>
      js_lt (Fin (of_int now)) (js_sub (expiresAt tc) (Fin 10000)) = (now < x - 10000)) \<and>
   (\<forall>e. 0 \<le> now \<and> 0 \<le> e \<and> now + e * 1000 < 2 ^ 53 \<longrightarrow>
      to_number P (JNum (Fin (of_int e))) = Inr (Fin (of_int e)) \<and>
      js_add (Fin (of_int now)) (js_mul (Fin (of_int e)) (Fin 1000))
        = Fin (of_int (now + e * 1000)))"
proof (intro conjI allI impI)
  fix x
  assume a: "expiresAt tc = Fin (of_int x) \<and> \<bar>x - 10000\<bar> < 2 ^ 53"
  then have "js_sub (expiresAt tc) (Fin 10000) = Fin (of_int (x - 10000))"
    using js_sub_int[of x 10000] by simp
  then show "js_lt (Fin (of_int now)) (js_sub (expiresAt tc) (Fin 10000)) = (now < x - 10000)"
    by (simp only: js_lt_int)
next
  fix e
  assume a: "0 \<le> now \<and> 0 \<le> e \<and> now + e * 1000 < 2 ^ 53"
  then have m: "js_mul (Fin (of_int e)) (Fin (of_int 1000)) = Fin (of_int (e * 1000))"
    by (intro js_mul_int) auto
  from a have "\<bar>now + e * 1000\<bar> < 2 ^ 53" by simp
  from js_add_int[OF this] m
  show "js_add (Fin (of_int now)) (js_mul (Fin (of_int e)) (Fin 1000))
        = Fin (of_int (now + e * 1000))"
    by simp
qed (auto simp: getAccessToken_def token_fresh_def get_prop_opt Let_def split: sum.splits)

theorem getAccessToken_cached_or_exchanged_witness:
  "getAccessToken sample_platform net_token_ok 1000 tokenCache0
     = (Inr (JStr ''abc''), \<lparr>token = JStr ''abc'', expiresAt = Fin 86401000\<rparr>, 1) \<and>
   getAccessToken sample_platform net_empty_500 2000 \<lparr>token = JStr ''abc'', expiresAt = Fin 86401000\<rparr>
     = (Inr (JStr ''abc''), \<lparr>token = JStr ''abc'', expiresAt = Fin 86401000\<rparr>, 0) \<and>
   getAccessToken sample_platform net_token_ok 1000000 \<lparr>token = JStr ''old'', expiresAt = Fin 5000\<rparr>
     = (Inr (JStr ''abc''), \<lparr>token = JStr ''abc'', expiresAt = Fin 87400000\<rparr>, 1)"
  using getAccessToken_cached_or_exchanged [of tokenCache0 1000 sample_platform net_token_ok]
        getAccessToken_cached_or_exchanged
          [of "\<lparr>token = JStr ''abc'', expiresAt = Fin 86401000\<rparr>" 2000 sample_platform net_empty_500]
        getAccessToken_cached_or_exchanged
          [of "\<lparr>token = JStr ''old'', expiresAt = Fin 5000\<rparr>" 1000000 sample_platform net_token_ok]
  by (simp add: tokenCache0_def net_token_ok_def token_sum_example token_margin_example
      token_margin_start token_margin_stale token_sum_stale)

text \<open>
  C2 as stated fails on a 2xx answer whose \<open>expires_in\<close> does not convert to a number. The
  function does not look at the fields of the answer before it uses them: the token is
  stored, the multiplication throws, no expiry is stored and nothing is returned.
\<close>

theorem getAccessToken_expires_in_counterexample:
  "net_token_bad_expiry 0 TokenExchange
     = Inr \<lparr>status = 200, body = ''{\"access_token\":\"abc\",\"expires_in\":{\"toString\":0}}'',
            json = JObj [(''access_token'', JStr ''abc''),
                         (''expires_in'', JObj [(''toString'', JNum (Fin 0))])]\<rparr> \<and>
   getAccessToken sample_platform net_token_bad_expiry 1000000 stale_token_cache
     = (Inl TypeError, \<lparr>token = JStr ''abc'', expiresAt = Fin 5000\<rparr>, 1)"
  using stale_not_fresh
  by (simp add: getAccessToken_def net_token_bad_expiry_def sample_platform_def
      stale_token_cache_def)

text \<open>
  A 2xx answer whose body is not JSON leaves \<open>data\<close> null, and reading \<open>data.access_token\<close>
  throws before anything is stored. \<open>fetchFoods\<close>, \<open>fetchFoodDetails\<close> and \<open>findFoodByBarcode\<close>
  test the parsed body before they use it; this function does not.
\<close>

lemma getAccessToken_not_json_example:
  "net_ok_not_json 0 TokenExchange = Inr \<lparr>status = 200, body = ''oops'', json = JNull\<rparr> \<and>
   getAccessToken sample_platform net_ok_not_json 1000000 stale_token_cache
     = (Inl TypeError, stale_token_cache, 1)"
  using stale_not_fresh by (simp add: getAccessToken_def net_ok_not_json_def)

lemma getAccessToken_null_body:
  assumes "\<not> token_fresh now tc" and "net 0 TokenExchange = Inr r"
    and "200 \<le> status r" and "status r < 300" and "json r = JNull"
  shows "getAccessToken P net now tc = (Inl TypeError, tc, 1)"
  using assms by (simp add: getAccessToken_def)

lemma getAccessToken_conversion_throws:
  assumes "\<not> token_fresh now tc" and "net 0 TokenExchange = Inr r"
    and "200 \<le> status r" and "status r < 300" and "json r \<noteq> JNull" and "json r \<noteq> JUndefined"
    and "to_number P (opt_prop (json r) ''expires_in'') = Inl e"
  shows "getAccessToken P net now tc
           = (Inl e, tc\<lparr>token := opt_prop (json r) ''access_token''\<rparr>, 1)"
  using assms by (simp add: getAccessToken_def get_prop_opt)

text \<open>
  C9. When the exchange is made and fails, by a rejected request or by a status outside
  200..299, \<open>getAccessToken\<close> throws and the cache (token and \<open>expiresAt\<close>) is what it was
  before the call.
\<close>

theorem getAccessToken_failure_keeps_cache:
  assumes "\<not> token_fresh now tc"
    and "case net 0 TokenExchange of Inl m \<Rightarrow> True | Inr r \<Rightarrow> status r < 200 \<or> status r \<ge> 300"
  shows "\<exists>e. getAccessToken P net now tc = (Inl e, tc, 1)"
  using assms by (auto simp: getAccessToken_def split: sum.splits)

theorem getAccessToken_failure_keeps_cache_witness:
  "\<not> token_fresh 1000000 \<lparr>token = JStr ''old'', expiresAt = Fin 5000\<rparr> \<and>
   getAccessToken sample_platform net_empty_500 1000000 \<lparr>token = JStr ''old'', expiresAt = Fin 5000\<rparr>
     = (Inl (Error ''FatSecret token error: ''), \<lparr>token = JStr ''old'', expiresAt = Fin 5000\<rparr>, 1) \<and>
   getAccessToken sample_platform net_reject 1000000 \<lparr>token = JStr ''old'', expiresAt = Fin 5000\<rparr>
     = (Inl (Transport ''socket hang up''), \<lparr>token = JStr ''old'', expiresAt = Fin 5000\<rparr>, 1) \<and>
   \<not> token_fresh 1000 tokenCache0 \<and>
   getAccessToken sample_platform net_empty_500 1000 tokenCache0
     = (Inl (Error ''FatSecret token error: ''), tokenCache0, 1)"
proof -
  let ?tc = "\<lparr>token = JStr ''old'', expiresAt = Fin 5000\<rparr>"
  have h1: "\<not> token_fresh 1000000 ?tc"
    using stale_not_fresh by (simp add: stale_token_cache_def)
  have h2: "case net_empty_500 0 TokenExchange of Inl m \<Rightarrow> True | Inr r \<Rightarrow> status r < 200 \<or> status r \<ge> 300"
    by (simp add: net_empty_500_def)
  have h3: "case net_reject 0 TokenExchange of Inl m \<Rightarrow> True | Inr r \<Rightarrow> status r < 200 \<or> status r \<ge> 300"
    by (simp add: net_reject_def)
  have h0: "\<not> token_fresh 1000 tokenCache0" by (simp add: token_fresh_def tokenCache0_def)
  from getAccessToken_failure_keeps_cache
         [of 1000000 ?tc net_empty_500 sample_platform, OF h1 h2]
  obtain e1 where e1: "getAccessToken sample_platform net_empty_500 1000000 ?tc = (Inl e1, ?tc, 1)"
    by blast
  from getAccessToken_failure_keeps_cache
         [of 1000000 ?tc net_reject sample_platform, OF h1 h3]
  obtain e2 where e2: "getAccessToken sample_platform net_reject 1000000 ?tc = (Inl e2, ?tc, 1)"
    by blast
  from getAccessToken_failure_keeps_cache
         [of 1000 tokenCache0 net_empty_500 sample_platform, OF h0 h2]
  obtain e3 where e3: "getAccessToken sample_platform net_empty_500 1000 tokenCache0 = (Inl e3, tokenCache0, 1)"
    by blast
  have v1: "fst (getAccessToken sample_platform net_empty_500 1000000 ?tc)
              = Inl (Error ''FatSecret token error: '')"
    using h1 by (simp add: getAccessToken_def net_empty_500_def)
  have v2: "fst (getAccessToken sample_platform net_reject 1000000 ?tc)
              = Inl (Transport ''socket hang up'')"
    using h1 by (simp add: getAccessToken_def net_reject_def)
  have v3: "fst (getAccessToken sample_platform net_empty_500 1000 tokenCache0)
              = Inl (Error ''FatSecret token error: '')"
    using h0 by (simp add: getAccessToken_def net_empty_500_def)
  from e1 v1 have "e1 = Error ''FatSecret token error: ''" by simp
  moreover from e2 v2 have "e2 = Transport ''socket hang up''" by simp
  moreover from e3 v3 have "e3 = Error ''FatSecret token error: ''" by simp
  ultimately show ?thesis using e1 e2 e3 h1 h0 by simp
qed

section \<open>fetchFoods: page and page size\<close>

lemma safePageSize_cases:
  "safePageSize s = (if js_gt s (Fin 50) then Fin 50 else if js_gt s (Fin 0) then s else Fin 20)"
  by (cases s) (auto simp: safePageSize_def Math_min_def js_gt_def)

lemma safePageSize_range: "js_gt (safePageSize s) (Fin 0) \<and> \<not> js_gt (safePageSize s) (Fin 50)"
  by (cases s) (auto simp: safePageSize_def Math_min_def js_gt_def)

lemma fetchFoods_reports:
  "fetchFoods P net base query page_arg size_arg = Inr resp \<Longrightarrow>
   page resp = safePage (case page_arg of None \<Rightarrow> Fin 1 | Some x \<Rightarrow> x) \<and>
   pageSize resp = safePageSize (case size_arg of None \<Rightarrow> Fin 12 | Some x \<Rightarrow> x)"
  by (auto simp: fetchFoods_def Let_def split: prod.splits option.splits sum.splits jsval.splits)


text \<open>
  C5, as amended. The page that \<open>fetchFoods\<close> reports is the requested page when that is
  greater than 0 and 1 otherwise (also when no page is given). The page size it reports
  is 12 when none is given, 50 for a request above 50, the request itself when it is in
  (0, 50], and 20 for a request that is not greater than 0 (NaN included); so it lies in
  (0, 50].
\<close>

theorem fetchFoods_paging:
  assumes "fetchFoods P net base query page_arg size_arg = Inr resp"
  shows "page resp = (case page_arg of None \<Rightarrow> Fin 1
                      | Some p \<Rightarrow> if js_gt p (Fin 0) then p else Fin 1) \<and>
         pageSize resp = (case size_arg of None \<Rightarrow> Fin 12
                          | Some s \<Rightarrow> if js_gt s (Fin 50) then Fin 50
                                      else if js_gt s (Fin 0) then s else Fin 20) \<and>
         js_gt (pageSize resp) (Fin 0) \<and> \<not> js_gt (pageSize resp) (Fin 50)"
proof -
  note r = fetchFoods_reports[OF assms]
  have "safePageSize (Fin 12) = Fin 12" by (simp add: safePageSize_def Math_min_def js_gt_def)
  moreover have "safePage (Fin 1) = Fin 1" by (simp add: safePage_def)
  ultimately show ?thesis
    using r safePageSize_range[of "case size_arg of None \<Rightarrow> Fin 12 | Some x \<Rightarrow> x"]
    by (auto simp: safePageSize_cases safePage_def split: option.splits)
qed

theorem fetchFoods_paging_witness:
  "fetchFoods sample_platform net_no_products world_url ''leche'' (Some (Fin 3)) (Some (Fin 80))
     = Inr \<lparr>items = [], count = Fin 0, page = Fin 3, pageSize = Fin 50\<rparr>"
proof -
  have run: "fetchFoods sample_platform net_no_products world_url ''leche'' (Some (Fin 3)) (Some (Fin 80))
     = Inr \<lparr>items = [], count = Fin 0, page = Fin 3, pageSize = Fin 50\<rparr>"
    by (simp add: fetchFoods_def baseUrls_def net_no_products_def safePage_def safePageSize_def
      Math_min_def js_gt_def js_or_def Let_def)
  from fetchFoods_paging[OF run] run show ?thesis by simp
qed


text \<open>
  C5 as stated fails twice: a requested page size of 1 is kept, and 1 is outside (1, 50];
  and a missing page size becomes 12, not 20, in \<open>fetchFoods\<close> and in the route alike.
\<close>

theorem fetchFoods_page_size_counterexample:
  "fetchFoods sample_platform net_no_products world_url ''leche'' (Some (Fin 1)) (Some (Fin 1))
     = Inr \<lparr>items = [], count = Fin 0, page = Fin 1, pageSize = Fin 1\<rparr> \<and>
   fetchFoods sample_platform net_no_products world_url ''leche'' None None
     = Inr \<lparr>items = [], count = Fin 0, page = Fin 1, pageSize = Fin 12\<rparr> \<and>
   fst (search_route sample_platform net_no_products world_url 0 0 Map.empty (Some ''leche'') None None)
     = Success \<lparr>items = [], count = Fin 0, page = Fin 1, pageSize = Fin 12\<rparr>"
  by (simp add: fetchFoods_def baseUrls_def net_no_products_def safePage_def safePageSize_def
      Math_min_def js_gt_def js_or_def search_route_def number_param_def cache_get_def Let_def)

section \<open>fetchFoods: the nutrient fields\<close>

lemma floor_rat_numeral: "\<lfloor>numeral a / numeral b :: rat\<rfloor> = numeral a div numeral b"
  using floor_divide_of_int_eq[of "numeral a" "numeral b", where ?'a = rat] by simp

lemma floor_rat_one: "\<lfloor>1 / numeral b :: rat\<rfloor> = 1 div numeral b"
  using floor_divide_of_int_eq[of 1 "numeral b", where ?'a = rat] by simp

lemma floor_rat_minus: "\<lfloor>- (numeral a / numeral b) :: rat\<rfloor> = - numeral a div numeral b"
  using floor_divide_of_int_eq[of "- numeral a" "numeral b", where ?'a = rat] by simp

lemmas floor_rat = floor_rat_numeral floor_rat_one floor_rat_minus

lemma Math_round_integer: "finite_num x \<Longrightarrow> is_integer (Math_round x)"
  by (cases x) (auto simp: Math_round_def is_integer_def finite_num_def)

lemma Math_round_neg_zero: "(Math_round x = NegZero) = rounds_to_neg_zero x"
  by (cases x) (auto simp: Math_round_def rounds_to_neg_zero_def)

lemma Math_round_value:
  "\<not> (- (1 / 2) \<le> r \<and> r < 0) \<Longrightarrow> Math_round (Fin r) = Fin (of_int \<lfloor>r + 1 / 2\<rfloor>)"
  by (simp add: Math_round_def)

lemma map_item_converts:
  assumes "map_item P item = Inr it"
  shows "\<forall>(f, k100, k) \<in> set nutrient_fields.
           to_number P (source_value item k100 k) = Inr (source_number P item k100 k) \<and>
           f it = Math_round (source_number P item k100 k)"
proof -
  from assms obtain n where n: "get_prop item ''nutriments'' = Inr n"
    by (auto simp: map_item_def split: sum.splits)
  then have "n = opt_prop item ''nutriments''" by (cases item) auto
  with assms n show ?thesis
    by (auto simp: map_item_def nutrient_fields_def source_number_def source_value_def Let_def
        split: sum.splits)
qed

lemma map_item_fields:
  assumes "map_item P item = Inr it"
  shows "\<forall>(f, k100, k) \<in> set nutrient_fields. f it = Math_round (source_number P item k100 k)"
  using map_item_converts[OF assms] by auto

lemma map_items_nth:
  "map_items P products = Inr its \<Longrightarrow>
   length its = length products \<and> (\<forall>i<length products. map_item P (products ! i) = Inr (its ! i))"
proof (induction products arbitrary: its)
  case Nil
  then show ?case by simp
next
  case (Cons x xs)
  from Cons.prems obtain y ys where y: "map_item P x = Inr y" "map_items P xs = Inr ys" "its = y # ys"
    by (auto split: sum.splits)
  from Cons.IH[OF y(2)] y show ?case by (auto simp: nth_Cons')
qed

lemma fetchFoods_items:
  assumes "fetchFoods P net base query page_arg size_arg = Inr resp"
  shows "\<exists>sj products.
           fst (search_loop net query (page resp) (pageSize resp) (baseUrls base) 0 None) = Some sj \<and>
           js_or (opt_prop sj ''products'') (JArr []) = JArr products \<and>
           map_items P products = Inr (items resp)"
  using assms
  by (auto simp: fetchFoods_def Let_def split: prod.splits option.splits sum.splits jsval.splits)


text \<open>
  C8, as amended. The items that \<open>fetchFoods\<close> returns are, in order, the products of the
  provider's answer, and each of the four nutrient fields of an item is \<open>Math.round\<close> of
  the source number: the 100g value if it is truthy, else the base value if it is truthy,
  else 0, converted to a number. When that number is finite the field is an integer; the
  field is negative zero exactly when the number is \<open>-0\<close> or lies in \<open>[-0.5, 0)\<close>.
\<close>

theorem fetchFoods_nutrients:
  assumes "fetchFoods P net base query page_arg size_arg = Inr resp"
  shows "\<exists>sj products.
           fst (search_loop net query (page resp) (pageSize resp) (baseUrls base) 0 None) = Some sj \<and>
           js_or (opt_prop sj ''products'') (JArr []) = JArr products \<and>
           length (items resp) = length products \<and>
           (\<forall>i<length products. \<forall>(f, k100, k) \<in> set nutrient_fields.
              f (items resp ! i) = Math_round (source_number P (products ! i) k100 k) \<and>
              (finite_num (source_number P (products ! i) k100 k) \<longrightarrow> is_integer (f (items resp ! i))) \<and>
              (f (items resp ! i) = NegZero) = rounds_to_neg_zero (source_number P (products ! i) k100 k))"
proof -
  from fetchFoods_items[OF assms] obtain sj products where
    sj: "fst (search_loop net query (page resp) (pageSize resp) (baseUrls base) 0 None) = Some sj"
    and pr: "js_or (opt_prop sj ''products'') (JArr []) = JArr products"
    and mi: "map_items P products = Inr (items resp)"
    by blast
  note nth = map_items_nth[OF mi]
  have "\<forall>i<length products. \<forall>(f, k100, k) \<in> set nutrient_fields.
              f (items resp ! i) = Math_round (source_number P (products ! i) k100 k) \<and>
              (finite_num (source_number P (products ! i) k100 k) \<longrightarrow> is_integer (f (items resp ! i))) \<and>
              (f (items resp ! i) = NegZero) = rounds_to_neg_zero (source_number P (products ! i) k100 k)"
  proof (intro allI impI ballI)
    fix i x assume i: "i < length products" and x: "x \<in> set nutrient_fields"
    obtain f k100 k where xf: "x = (f, k100, k)" by (cases x)
    from nth i have "map_item P (products ! i) = Inr (items resp ! i)" by simp
    from map_item_fields[OF this] x xf
    have eq: "f (items resp ! i) = Math_round (source_number P (products ! i) k100 k)" by auto
    show "case x of (f, k100, k) \<Rightarrow>
              f (items resp ! i) = Math_round (source_number P (products ! i) k100 k) \<and>
              (finite_num (source_number P (products ! i) k100 k) \<longrightarrow> is_integer (f (items resp ! i))) \<and>
              (f (items resp ! i) = NegZero) = rounds_to_neg_zero (source_number P (products ! i) k100 k)"
      using eq xf by (simp add: Math_round_integer Math_round_neg_zero)
  qed
  with sj pr nth show ?thesis by blast
qed

lemma fetchFoods_run_example:
  "fetchFoods sample_platform
      net_agua
      world_url ''agua'' None None
     = Inr \<lparr>items = [\<lparr>item_id = JStr ''1'', name = JStr ''agua'', brand = JStr [], image_url = JStr [],
                        kcal_100g = Fin 53, protein_100g = Fin 3, fat_100g = Fin 0, carbs_100g = Fin 0\<rparr>],
            count = Fin 0, page = Fin 1, pageSize = Fin 12\<rparr>"
  by (simp add: fetchFoods_def baseUrls_def net_agua_def net_agua_negative_def safePage_def safePageSize_def
      Math_min_def js_gt_def js_or_def Let_def map_item_def item_name_def nutrient_source_def
      Math_round_def floor_rat)


theorem fetchFoods_nutrients_witness:
  "fetchFoods sample_platform
      net_agua
      world_url ''agua'' None None
     = Inr 
       \<lparr>items = [\<lparr>item_id = JStr ''1'', name = JStr ''agua'', brand = JStr [], image_url = JStr [],
                        kcal_100g = Fin 53, protein_100g = Fin 3, fat_100g = Fin 0, carbs_100g = Fin 0\<rparr>],
            count = Fin 0, page = Fin 1, pageSize = Fin 12\<rparr> \<and>
   (\<exists>products. length (items 
       \<lparr>items = [\<lparr>item_id = JStr ''1'', name = JStr ''agua'', brand = JStr [], image_url = JStr [],
                        kcal_100g = Fin 53, protein_100g = Fin 3, fat_100g = Fin 0, carbs_100g = Fin 0\<rparr>],
            count = Fin 0, page = Fin 1, pageSize = Fin 12\<rparr>) = length products \<and>
      kcal_100g (items 
       \<lparr>items = [\<lparr>item_id = JStr ''1'', name = JStr ''agua'', brand = JStr [], image_url = JStr [],
                        kcal_100g = Fin 53, protein_100g = Fin 3, fat_100g = Fin 0, carbs_100g = Fin 0\<rparr>],
            count = Fin 0, page = Fin 1, pageSize = Fin 12\<rparr> ! 0) = Math_round (source_number sample_platform (products ! 0)
                                                   ''energy-kcal_100g'' ''energy-kcal''))"
proof -
  let ?R = "\<lparr>items = [\<lparr>item_id = JStr ''1'', name = JStr ''agua'', brand = JStr [], image_url = JStr [],
                        kcal_100g = Fin 53, protein_100g = Fin 3, fat_100g = Fin 0, carbs_100g = Fin 0\<rparr>],
            count = Fin 0, page = Fin 1, pageSize = Fin 12\<rparr>"
  from fetchFoods_nutrients[OF fetchFoods_run_example] obtain products where
    len: "length (items ?R) = length products" and
    every: "\<forall>i<length products. \<forall>(f, k100, k) \<in> set nutrient_fields.
        f (items ?R ! i) = Math_round (source_number sample_platform (products ! i) k100 k) \<and>
        (finite_num (source_number sample_platform (products ! i) k100 k) \<longrightarrow>
           is_integer (f (items ?R ! i))) \<and>
        (f (items ?R ! i) = NegZero) = rounds_to_neg_zero (source_number sample_platform (products ! i) k100 k)"
    by blast
  from len have "0 < length products" by (cases products) auto
  with every have "\<forall>(f, k100, k) \<in> set nutrient_fields.
        f (items ?R ! 0) = Math_round (source_number sample_platform (products ! 0) k100 k) \<and>
        (finite_num (source_number sample_platform (products ! 0) k100 k) \<longrightarrow>
           is_integer (f (items ?R ! 0))) \<and>
        (f (items ?R ! 0) = NegZero) = rounds_to_neg_zero (source_number sample_platform (products ! 0) k100 k)"
    by blast
  then have "kcal_100g (items ?R ! 0) = Math_round (source_number sample_platform (products ! 0)
                                                   ''energy-kcal_100g'' ''energy-kcal'')"
    by (simp add: nutrient_fields_def)
  with len fetchFoods_run_example show ?thesis by blast
qed

text \<open>
  C8 as stated fails for a source value in \<open>[-0.5, 0)\<close>: \<open>Math.round(-0.25)\<close> is \<open>-0\<close>.
\<close>

theorem fetchFoods_negative_zero_counterexample:
  "fetchFoods sample_platform
      net_agua_negative
      world_url ''agua'' None None
     = Inr \<lparr>items = [\<lparr>item_id = JStr ''1'', name = JStr ''agua'', brand = JStr [], image_url = JStr [],
                        kcal_100g = NegZero, protein_100g = Fin 0, fat_100g = Fin 0, carbs_100g = Fin 0\<rparr>],
            count = Fin 0, page = Fin 1, pageSize = Fin 12\<rparr>"
  by (simp add: fetchFoods_def baseUrls_def net_agua_def net_agua_negative_def safePage_def safePageSize_def
      Math_min_def js_gt_def js_or_def Let_def map_item_def item_name_def nutrient_source_def
      Math_round_def floor_rat)

section \<open>The barcode route: not found and other failures\<close>











text \<open>
  The loop assigns \<open>response\<close> before it checks the status, and the check after the loop
  looks at the parsed body only: when the last answer is not 2xx and has a JSON body, the
  lookup goes on with that body. Here every answer is 503 with the status flag 0, and the
  route answers 404.
\<close>

lemma barcode_route_non2xx_json_example:
  "barcode_route sample_platform net_503_status0 world_url (Some ''123'')
     = Failure 404 (Error (not_found_message ''123''))"
  by (simp add: barcode_route_def findFoodByBarcode_def baseUrls_def net_503_status0_def off_error_def
      mentions_not_found_def not_found_message_def starts_with_def)


section \<open>findFoodByBarcode: the servings\<close>

lemma findFoodByBarcode_Inr:
  "findFoodByBarcode P net base barcode = Inr p \<Longrightarrow>
   build_product P barcode (used_product net base barcode) = Inr p"
  by (auto simp: findFoodByBarcode_def used_product_def split: prod.splits option.splits if_splits)

lemma build_product_converts:
  assumes "build_product P barcode product = Inr p"
  shows "\<forall>(k100, k) \<in> set [(''energy-kcal_100g'', ''energy-kcal''), (''proteins_100g'', ''proteins''),
                            (''fat_100g'', ''fat''), (''carbohydrates_100g'', ''carbohydrates'')].
           to_number P (source_value product k100 k) = Inr (source_number P product k100 k)"
proof -
  from assms obtain n where n: "get_prop product ''nutriments'' = Inr n"
    by (auto simp: build_product_def split: sum.splits)
  then have n': "n = opt_prop product ''nutriments''" by (cases product) auto
  from assms n n' show ?thesis
    by (auto simp: build_product_def Let_def per100g_of_def source_number_def source_value_def
        split: sum.splits)
qed

lemma build_product_servings:
  assumes "build_product P barcode product = Inr p"
  shows "servings p =
           base_serving (per100g_cal P product) (per100g_pro P product) (per100g_fat P product)
             (per100g_carb P product)
           # (case opt_prop product ''serving_size'' of
                JStr s \<Rightarrow> if s = [] then []
                          else [scaled_serving s (per100g_cal P product) (per100g_pro P product)
                                  (per100g_fat P product) (per100g_carb P product)]
              | _ \<Rightarrow> [])"
proof -
  from assms obtain n where n: "get_prop product ''nutriments'' = Inr n"
    by (auto simp: build_product_def split: sum.splits)
  then have n': "n = opt_prop product ''nutriments''" by (cases product) auto
  from assms n n' obtain cal pro fa carb extra where
    c: "to_number P (source_value product ''energy-kcal_100g'' ''energy-kcal'') = Inr cal"
       "to_number P (source_value product ''proteins_100g'' ''proteins'') = Inr pro"
       "to_number P (source_value product ''fat_100g'' ''fat'') = Inr fa"
       "to_number P (source_value product ''carbohydrates_100g'' ''carbohydrates'') = Inr carb"
    and x: "extra_servings (opt_prop product ''serving_size'') (Math_round cal) (Math_round pro)
              (Math_round fa) (Math_round carb) = Inr extra"
    and sv: "servings p = base_serving (Math_round cal) (Math_round pro) (Math_round fa)
                            (Math_round carb) # extra"
    by (auto simp: build_product_def Let_def per100g_of_def source_value_def split: sum.splits)
  have r: "per100g_cal P product = Math_round cal" "per100g_pro P product = Math_round pro"
          "per100g_fat P product = Math_round fa" "per100g_carb P product = Math_round carb"
    using c by (simp_all add: per100g_cal_def per100g_pro_def per100g_fat_def per100g_carb_def
        source_number_def)
  from x sv show ?thesis unfolding r
    by (auto simp: extra_servings_def split: if_splits jsval.splits)
qed

lemma grams_250: "servingGrams_of ''250g'' = Fin 250"
  by code_simp

lemma ratio_250: "js_div (Fin 250) (Fin 100) = Fin (5 / 2)"
  by code_simp

lemma mul_53: "js_mul (Fin 53) (Fin (5 / 2)) = Fin (265 / 2)"
  by code_simp

lemma mul_0: "js_mul (Fin 0) (Fin (5 / 2)) = Fin 0"
  by code_simp

lemma mul_raw: "js_mul (Fin (105 / 2)) (Fin (5 / 2)) = Fin (525 / 4)"
  by code_simp

lemma milk_run:
  "findFoodByBarcode sample_platform net_milk world_url ''123'' =
     Inr \<lparr>food_id = ''123'', product_name = JStr ''leche'', product_brand = JStr [],
          product_image_url = JStr [],
          servings = [\<lparr>serving_description = JStr ''100g'', calories = Fin 53, protein = Fin 0,
                        fat = Fin 0, carbohydrate = Fin 0, metric_serving_amount = Fin 100,
                        metric_serving_unit = ''g''\<rparr>,
                      \<lparr>serving_description = JStr ''250g'', calories = Fin 133, protein = Fin 0,
                        fat = Fin 0, carbohydrate = Fin 0, metric_serving_amount = Fin 250,
                        metric_serving_unit = ''g''\<rparr>]\<rparr>"
  by (simp add: findFoodByBarcode_def baseUrls_def net_milk_def milk_def build_product_def
      Let_def js_or_def per100g_of_def nutrient_source_def Math_round_def floor_rat
      extra_servings_def scaled_serving_def base_serving_def grams_250 ratio_250 mul_53 mul_0)

lemma water_run:
  "findFoodByBarcode sample_platform net_water world_url ''123'' =
     Inr \<lparr>food_id = ''123'', product_name = JStr ''agua'', product_brand = JStr [],
          product_image_url = JStr [],
          servings = [\<lparr>serving_description = JStr ''100g'', calories = Fin 0, protein = Fin 0,
                        fat = Fin 0, carbohydrate = Fin 0, metric_serving_amount = Fin 100,
                        metric_serving_unit = ''g''\<rparr>]\<rparr>"
  by (simp add: findFoodByBarcode_def baseUrls_def net_water_def water_def build_product_def
      Let_def js_or_def per100g_of_def nutrient_source_def Math_round_def floor_rat
      extra_servings_def base_serving_def)

lemma used_milk: "used_product net_milk world_url ''123'' = milk"
  by (simp add: used_product_def baseUrls_def net_milk_def)

lemma used_water: "used_product net_water world_url ''123'' = water"
  by (simp add: used_product_def baseUrls_def net_water_def)

lemma milk_size: "opt_prop milk ''serving_size'' = JStr ''250g''"
  by (simp add: milk_def)

lemma milk_kcal: "source_number sample_platform milk ''energy-kcal_100g'' ''energy-kcal'' = Fin (105 / 2)"
  by (simp add: milk_def source_number_def source_value_def nutrient_source_def js_or_def)

lemma water_size: "opt_prop water ''serving_size'' = JStr []"
  by (simp add: water_def)


text \<open>
  C10, as amended. A successful lookup returns one or two servings. The first is the
  100g serving: description \<open>100g\<close>, amount 100, unit \<open>g\<close>, with the four rounded values of
  the product. There is a second serving exactly when the \<open>serving_size\<close> of the product
  is a non-empty string.
\<close>

theorem findFoodByBarcode_servings:
  assumes "findFoodByBarcode P net base barcode = Inr p"
  shows "servings p \<noteq> [] \<and> length (servings p) \<le> 2 \<and>
         servings p ! 0 =
           \<lparr>serving_description = JStr ''100g'',
            calories = per100g_cal P (used_product net base barcode),
            protein = per100g_pro P (used_product net base barcode),
            fat = per100g_fat P (used_product net base barcode),
            carbohydrate = per100g_carb P (used_product net base barcode),
            metric_serving_amount = Fin 100, metric_serving_unit = ''g''\<rparr> \<and>
         (length (servings p) = 2) =
           nonempty_string (opt_prop (used_product net base barcode) ''serving_size'')"
  using build_product_servings[OF findFoodByBarcode_Inr[OF assms]]
  by (auto simp: base_serving_def nonempty_string_def split: jsval.splits)

theorem findFoodByBarcode_servings_witness:
  "length (servings (projr (findFoodByBarcode sample_platform net_milk world_url ''123''))) = 2 \<and>
   nonempty_string (opt_prop milk ''serving_size'') \<and>
   metric_serving_amount
     (servings (projr (findFoodByBarcode sample_platform net_milk world_url ''123'')) ! 0) = Fin 100"
  using findFoodByBarcode_servings[OF milk_run] milk_run
  by (simp add: used_milk milk_size nonempty_string_def)


text \<open>
  C10 as stated fails for a product whose \<open>serving_size\<close> is the empty string: the product
  carries a serving-size string and the lookup returns one serving.
\<close>

theorem findFoodByBarcode_empty_serving_size_counterexample:
  "opt_prop water ''serving_size'' = JStr [] \<and>
   findFoodByBarcode sample_platform net_water world_url ''123'' =
     Inr \<lparr>food_id = ''123'', product_name = JStr ''agua'', product_brand = JStr [],
          product_image_url = JStr [],
          servings = [\<lparr>serving_description = JStr ''100g'', calories = Fin 0, protein = Fin 0,
                        fat = Fin 0, carbohydrate = Fin 0, metric_serving_amount = Fin 100,
                        metric_serving_unit = ''g''\<rparr>]\<rparr>"
  using water_run water_size by simp


text \<open>
  C4, as amended. For a product whose \<open>serving_size\<close> is a non-empty string \<open>s\<close>, the
  second serving has \<open>servingGrams\<close> equal to the number written by the first run of digits
  of \<open>s\<close> (100 when \<open>s\<close> has no digit), and each nutrient is
  \<open>Math.round(per100g * (servingGrams / 100))\<close>, where \<open>per100g\<close> is the already rounded value
  of the 100g serving. For \<open>250g\<close> the calories are \<open>Math.round(Math.round(c) * 2.5)\<close> for the
  source value \<open>c\<close>.
\<close>

theorem findFoodByBarcode_scaled_serving:
  assumes "findFoodByBarcode P net base barcode = Inr p"
    and "opt_prop (used_product net base barcode) ''serving_size'' = JStr s" and "s \<noteq> []"
  shows "length (servings p) = 2 \<and>
         servings p ! 1 =
           \<lparr>serving_description = JStr s,
            calories = Math_round (js_mul (per100g_cal P (used_product net base barcode))
                                     (js_div (servingGrams_of s) (Fin 100))),
            protein = Math_round (js_mul (per100g_pro P (used_product net base barcode))
                                    (js_div (servingGrams_of s) (Fin 100))),
            fat = Math_round (js_mul (per100g_fat P (used_product net base barcode))
                                (js_div (servingGrams_of s) (Fin 100))),
            carbohydrate = Math_round (js_mul (per100g_carb P (used_product net base barcode))
                                         (js_div (servingGrams_of s) (Fin 100))),
            metric_serving_amount = servingGrams_of s, metric_serving_unit = ''g''\<rparr> \<and>
         servingGrams_of s = (if first_digits s = [] then Fin 100 else parseInt_digits (first_digits s)) \<and>
         (s = ''250g'' \<longrightarrow>
            calories (servings p ! 1) =
              Math_round (js_mul (Math_round (source_number P (used_product net base barcode)
                                                ''energy-kcal_100g'' ''energy-kcal''))
                                 (Fin (5 / 2))))"
proof -
  note sv = build_product_servings[OF findFoodByBarcode_Inr[OF assms(1)]]
  have A: "length (servings p) = 2 \<and>
         servings p ! 1 =
           \<lparr>serving_description = JStr s,
            calories = Math_round (js_mul (per100g_cal P (used_product net base barcode))
                                     (js_div (servingGrams_of s) (Fin 100))),
            protein = Math_round (js_mul (per100g_pro P (used_product net base barcode))
                                    (js_div (servingGrams_of s) (Fin 100))),
            fat = Math_round (js_mul (per100g_fat P (used_product net base barcode))
                                (js_div (servingGrams_of s) (Fin 100))),
            carbohydrate = Math_round (js_mul (per100g_carb P (used_product net base barcode))
                                         (js_div (servingGrams_of s) (Fin 100))),
            metric_serving_amount = servingGrams_of s, metric_serving_unit = ''g''\<rparr>"
    using sv assms(2,3) by (simp add: scaled_serving_def Let_def)
  have B: "servingGrams_of s = (if first_digits s = [] then Fin 100 else parseInt_digits (first_digits s))"
    by (simp add: servingGrams_of_def)
  have C: "s = ''250g'' \<longrightarrow>
            calories (servings p ! 1) =
              Math_round (js_mul (Math_round (source_number P (used_product net base barcode)
                                                ''energy-kcal_100g'' ''energy-kcal''))
                                 (Fin (5 / 2)))"
  proof
    assume s: "s = ''250g''"
    from A have "calories (servings p ! 1) =
       Math_round (js_mul (per100g_cal P (used_product net base barcode))
                                     (js_div (servingGrams_of s) (Fin 100)))"
      by simp
    then show "calories (servings p ! 1) =
              Math_round (js_mul (Math_round (source_number P (used_product net base barcode)
                                                ''energy-kcal_100g'' ''energy-kcal''))
                                 (Fin (5 / 2)))"
      unfolding s grams_250 ratio_250 per100g_cal_def .
  qed
  from A B C show ?thesis by blast
qed


theorem findFoodByBarcode_scaled_serving_witness:
  "opt_prop (used_product net_milk world_url ''123'') ''serving_size'' = JStr ''250g'' \<and>
   calories (servings (projr (findFoodByBarcode sample_platform net_milk world_url ''123'')) ! 1)
     = Math_round (js_mul (Math_round (source_number sample_platform milk ''energy-kcal_100g'' ''energy-kcal''))
                          (Fin (5 / 2)))"
proof -
  obtain p where p: "findFoodByBarcode sample_platform net_milk world_url ''123'' = Inr p"
    using milk_run by blast
  have ss: "opt_prop (used_product net_milk world_url ''123'') ''serving_size'' = JStr ''250g''"
    by (simp add: used_milk milk_size)
  have ne: "''250g'' \<noteq> []" by simp
  from findFoodByBarcode_scaled_serving[OF p ss ne]
  have "calories (servings p ! 1)
     = Math_round (js_mul (Math_round (source_number sample_platform
                                         (used_product net_milk world_url ''123'')
                                         ''energy-kcal_100g'' ''energy-kcal''))
                          (Fin (5 / 2)))"
    by blast
  with ss show ?thesis unfolding p used_milk by simp
qed


text \<open>
  C4 as stated fails for the source value 52.5: the code rounds it to 53 before scaling
  and returns 133, while rounding \<open>52.5 * 2.5 = 131.25\<close> gives 131.
\<close>

theorem findFoodByBarcode_double_rounding_counterexample:
  "source_number sample_platform milk ''energy-kcal_100g'' ''energy-kcal'' = Fin (105 / 2) \<and>
   opt_prop milk ''serving_size'' = JStr ''250g'' \<and>
   calories (servings (projr (findFoodByBarcode sample_platform net_milk world_url ''123'')) ! 1)
     = Fin 133 \<and>
   Math_round (js_mul (Fin (105 / 2)) (Fin (5 / 2))) = Fin 131"
  by (simp add: milk_run milk_size milk_kcal mul_raw Math_round_def floor_rat)

section \<open>parseGeminiJson\<close>

lemma js_trim_id: "s \<noteq> [] \<Longrightarrow> \<not> is_space (hd s) \<Longrightarrow> \<not> is_space (last s) \<Longrightarrow> js_trim s = s"
proof -
  assume a: "s \<noteq> []" "\<not> is_space (hd s)" "\<not> is_space (last s)"
  then have 1: "dropWhile is_space s = s" by (cases s) auto
  from a have "rev s \<noteq> []" "\<not> is_space (hd (rev s))" by (simp_all add: hd_rev)
  then have 2: "dropWhile is_space (rev s) = rev s" by (cases "rev s") auto
  show ?thesis by (simp add: js_trim_def 1 2)
qed

lemma js_trim_snoc_space: "is_space c \<Longrightarrow> js_trim (d @ [c]) = js_trim d"
proof (cases "\<forall>x\<in>set d. is_space x")
  case True
  assume c: "is_space c"
  from True c have "\<forall>x\<in>set (d @ [c]). is_space x" by auto
  then have 1: "dropWhile is_space (d @ [c]) = []" by (metis dropWhile_eq_Nil_conv)
  from True have 2: "dropWhile is_space d = []" by (metis dropWhile_eq_Nil_conv)
  show ?thesis unfolding js_trim_def 1 2 ..
next
  case False
  assume c: "is_space c"
  from False have "dropWhile is_space (d @ [c]) = dropWhile is_space d @ [c]"
    by (auto simp: dropWhile_append1)
  with c show ?thesis by (simp add: js_trim_def)
qed

lemma strip_close_fence_append: "strip_close_fence (x @ ''```'') = x"
  by (simp add: strip_close_fence_def ends_with_def starts_with_def)

lemma strip_open_fence_fenced:
  "list_all is_alpha tag \<Longrightarrow> strip_open_fence (''```'' @ tag @ [CHR 0x0A] @ rest) = rest"
proof -
  assume "list_all is_alpha tag"
  then have "dropWhile is_alpha (tag @ CHR 0x0A # rest) = dropWhile is_alpha (CHR 0x0A # rest)"
    by (intro dropWhile_append2) (simp add: list_all_iff)
  also have "\<dots> = CHR 0x0A # rest" by (simp add: is_alpha_def)
  finally show ?thesis by (simp add: strip_open_fence_def starts_with_def)
qed

lemma brace_match_context:
  assumes "CHR ''{'' \<notin> set pre" "CHR ''{'' \<notin> set suf" "CHR ''}'' \<notin> set suf"
  shows "brace_match (pre @ d @ suf) = brace_match d"
proof -
  let ?P = "\<lambda>c. c \<noteq> CHR ''{''" and ?Q = "\<lambda>c. c \<noteq> CHR ''}''"
  have 1: "dropWhile ?P (pre @ d @ suf) = dropWhile ?P (d @ suf)"
    using assms(1) by (intro dropWhile_append2) auto
  show ?thesis
  proof (cases "CHR ''{'' \<in> set d")
    case True
    then have 2: "dropWhile ?P (d @ suf) = dropWhile ?P d @ suf"
      by (intro dropWhile_append1[of "CHR ''{''"]) auto
    have 3: "dropWhile ?Q (rev suf @ rev (dropWhile ?P d)) = dropWhile ?Q (rev (dropWhile ?P d))"
      using assms(3) by (intro dropWhile_append2) auto
    show ?thesis using assms(3) by (auto simp: brace_match_def Let_def 1 2 3 dest: set_dropWhileD)
  next
    case False
    then have a: "\<forall>x\<in>set (d @ suf). ?P x" and b: "\<forall>x\<in>set d. ?P x" using assms(2) by auto
    have e1: "dropWhile ?P (d @ suf) = []" by (rule iffD2[OF dropWhile_eq_Nil_conv a])
    have e2: "dropWhile ?P d = []" by (rule iffD2[OF dropWhile_eq_Nil_conv b])
    have "brace_match (pre @ d @ suf) = None" unfolding brace_match_def Let_def 1 e1 by simp
    moreover have "brace_match d = None" unfolding brace_match_def Let_def e2 by simp
    ultimately show ?thesis by simp
  qed
qed

lemma no_tick_no_fence:
  "\<not> starts_with s ''`'' \<Longrightarrow> \<not> starts_with s ''```'' \<and> \<not> starts_with s ''`json''"
  by (cases s) (auto simp: starts_with_def)

lemma clean_fences_plain:
  "\<not> starts_with (js_trim d) ''`'' \<Longrightarrow> clean_fences d = js_trim d"
  using no_tick_no_fence[of "js_trim d"] by (simp add: clean_fences_def Let_def)

lemma clean_fences_fenced:
  assumes "list_all is_alpha tag" "\<not> starts_with (js_trim d) ''`''"
  shows "clean_fences (fenced tag d) = js_trim d"
proof -
  have ns: "\<not> is_space (CHR ''`'')" by (simp add: is_space_def)
  have t: "js_trim (fenced tag d) = fenced tag d"
    by (rule js_trim_id) (simp_all add: fenced_def ns)
  have s1: "starts_with (fenced tag d) ''```''" by (simp add: fenced_def starts_with_def)
  have o: "strip_open_fence (fenced tag d) = d @ CHR 0x0A # ''```''"
    using strip_open_fence_fenced[OF assms(1), of "d @ [CHR 0x0A] @ ''```''"] by (simp add: fenced_def)
  have c: "strip_close_fence (d @ CHR 0x0A # ''```'') = d @ [CHR 0x0A]"
    using strip_close_fence_append[of "d @ [CHR 0x0A]"] by simp
  have tr: "js_trim (d @ [CHR 0x0A]) = js_trim d"
    by (rule js_trim_snoc_space) (simp add: is_space_def)
  have nj: "\<not> starts_with (js_trim d) ''`json''"
    using no_tick_no_fence[OF assms(2)] by simp
  show ?thesis
    by (simp add: clean_fences_def Let_def t s1 o c tr nj)
qed

lemma brace_match_fenced:
  assumes "list_all is_alpha tag"
  shows "brace_match (fenced tag d) = brace_match d"
proof -
  have "CHR ''{'' \<notin> set tag" using assms by (auto simp: list_all_iff is_alpha_def)
  then have "CHR ''{'' \<notin> set (''```'' @ tag @ [CHR 0x0A])" by simp
  from brace_match_context[OF this, of "[CHR 0x0A] @ ''```''" d]
  show ?thesis by (simp add: fenced_def)
qed

lemma brace_match_block:
  assumes "CHR ''{'' \<notin> set prose" "hd block = CHR ''{''" "last block = CHR ''}''" "block \<noteq> []"
  shows "brace_match (prose @ block) = Some block"
proof -
  let ?P = "\<lambda>c. c \<noteq> CHR ''{''" and ?Q = "\<lambda>c. c \<noteq> CHR ''}''"
  have "dropWhile ?P (prose @ block) = dropWhile ?P block"
    using assms(1) by (intro dropWhile_append2) auto
  also have "\<dots> = block" using assms(2,4) by (cases block) auto
  finally have 1: "dropWhile ?P (prose @ block) = block" .
  have "rev block \<noteq> []" "hd (rev block) = CHR ''}''" using assms(3,4) by (simp_all add: hd_rev)
  then have 2: "dropWhile ?Q (rev block) = rev block" by (cases "rev block") auto
  show ?thesis using assms(3,4) last_in_set[of block] by (auto simp: brace_match_def Let_def 1 2)
qed

lemma parse_sample: "JSON_parse sample_platform s = (if s = ''{}'' then Some (JObj []) else None)"
  by (simp add: sample_platform_def)

lemma plain_example: "parseGeminiJson sample_platform ''{}'' = JObj []"
  by (simp add: parseGeminiJson_def clean_fences_def js_trim_def is_space_def starts_with_def
      parse_sample Let_def)


text \<open>
  C7, as amended. For a non-empty document \<open>d\<close> that, trimmed, does not begin with a
  backtick (no JSON document does), \<open>parseGeminiJson\<close> gives the same result for \<open>d\<close> in a
  fenced block, with no tag or with a tag of letters, as for \<open>d\<close> alone. For prose without
  an opening brace followed by a block from \<open>{\<close> to \<open>}\<close> that parses, it returns the parsed
  block, provided the whole text does not parse to something else. It returns \<open>null\<close> when
  the cleaned text does not parse and there is no brace substring or that does not parse
  either. All of this holds whatever \<open>JSON.parse\<close> is.
\<close>

theorem parseGeminiJson_extraction:
  "(list_all is_alpha tag \<and> d \<noteq> [] \<and> \<not> starts_with (js_trim d) ''`'' \<longrightarrow>
      parseGeminiJson P (fenced tag d) = parseGeminiJson P d) \<and>
   (CHR ''{'' \<notin> set prose \<and> block \<noteq> [] \<and> hd block = CHR ''{'' \<and> last block = CHR ''}'' \<and>
    JSON_parse P block = Some v \<and>
    (JSON_parse P (clean_fences (prose @ block)) = None \<or>
     JSON_parse P (clean_fences (prose @ block)) = Some v) \<longrightarrow>
      parseGeminiJson P (prose @ block) = v) \<and>
   (JSON_parse P (clean_fences t) = None \<and>
    (case brace_match t of None \<Rightarrow> True | Some m \<Rightarrow> JSON_parse P m = None) \<longrightarrow>
      parseGeminiJson P t = JNull)"
proof (intro conjI impI)
  assume "list_all is_alpha tag \<and> d \<noteq> [] \<and> \<not> starts_with (js_trim d) ''`''"
  then have t: "list_all is_alpha tag" and dn: "d \<noteq> []" and nt: "\<not> starts_with (js_trim d) ''`''"
    by auto
  have fn: "fenced tag d \<noteq> []" by (simp add: fenced_def)
  show "parseGeminiJson P (fenced tag d) = parseGeminiJson P d"
    by (simp add: parseGeminiJson_def clean_fences_fenced[OF t nt] clean_fences_plain[OF nt]
        brace_match_fenced[OF t] dn fn split: option.splits)
next
  assume "CHR ''{'' \<notin> set prose \<and> block \<noteq> [] \<and> hd block = CHR ''{'' \<and> last block = CHR ''}'' \<and>
    JSON_parse P block = Some v \<and>
    (JSON_parse P (clean_fences (prose @ block)) = None \<or>
     JSON_parse P (clean_fences (prose @ block)) = Some v)"
  then show "parseGeminiJson P (prose @ block) = v"
    by (auto simp: parseGeminiJson_def brace_match_block)
next
  assume "JSON_parse P (clean_fences t) = None \<and>
    (case brace_match t of None \<Rightarrow> True | Some m \<Rightarrow> JSON_parse P m = None)"
  then show "parseGeminiJson P t = JNull"
    by (auto simp: parseGeminiJson_def split: option.splits)
qed


theorem parseGeminiJson_extraction_witness:
  "parseGeminiJson sample_platform (fenced ''json'' ''{}'') = JObj [] \<and>
   parseGeminiJson sample_platform (fenced [] ''{}'') = JObj [] \<and>
   parseGeminiJson sample_platform (''Here it is: '' @ ''{}'') = JObj [] \<and>
   parseGeminiJson sample_platform ''nothing'' = JNull"
proof -
  have h1: "list_all is_alpha ''json'' \<and> ''{}'' \<noteq> [] \<and> \<not> starts_with (js_trim ''{}'') ''`''"
    by (simp add: is_alpha_def js_trim_def is_space_def starts_with_def)
  have h1': "list_all is_alpha [] \<and> ''{}'' \<noteq> [] \<and> \<not> starts_with (js_trim ''{}'') ''`''"
    by (simp add: js_trim_def is_space_def starts_with_def)
  have h2: "CHR ''{'' \<notin> set ''Here it is: '' \<and> ''{}'' \<noteq> [] \<and> hd ''{}'' = CHR ''{'' \<and>
      last ''{}'' = CHR ''}'' \<and> JSON_parse sample_platform ''{}'' = Some (JObj []) \<and>
      (JSON_parse sample_platform (clean_fences (''Here it is: '' @ ''{}'')) = None \<or>
       JSON_parse sample_platform (clean_fences (''Here it is: '' @ ''{}'')) = Some (JObj []))"
    by (simp add: parse_sample clean_fences_def js_trim_def is_space_def starts_with_def Let_def)
  have h3: "JSON_parse sample_platform (clean_fences ''nothing'') = None \<and>
      (case brace_match ''nothing'' of None \<Rightarrow> True | Some m \<Rightarrow> JSON_parse sample_platform m = None)"
    by (simp add: parse_sample clean_fences_def js_trim_def is_space_def starts_with_def Let_def
        brace_match_def)
  from parseGeminiJson_extraction[of "''json''" "''{}''" sample_platform "''Here it is: ''" "''{}''"
         "JObj []" "''nothing''"] h1 h2 h3
  have a: "parseGeminiJson sample_platform (fenced ''json'' ''{}'') = parseGeminiJson sample_platform ''{}''"
    and b: "parseGeminiJson sample_platform (''Here it is: '' @ ''{}'') = JObj []"
    and c: "parseGeminiJson sample_platform ''nothing'' = JNull"
    by blast+
  from parseGeminiJson_extraction[of "[]" "''{}''" sample_platform "''Here it is: ''" "''{}''"
         "JObj []" "''nothing''"] h1'
  have a': "parseGeminiJson sample_platform (fenced [] ''{}'') = parseGeminiJson sample_platform ''{}''"
    by blast
  from a a' b c plain_example show ?thesis by simp
qed


text \<open>
  C7 as stated fails for prose that itself contains an opening brace: the match runs from
  the first \<open>{\<close> of the prose to the last \<open>}\<close>, which does not parse, and the result is
  \<open>null\<close>.
\<close>

theorem parseGeminiJson_prose_brace_counterexample:
  "JSON_parse sample_platform ''{}'' = Some (JObj []) \<and>
   parseGeminiJson sample_platform (''For {food}: '' @ ''{}'') = JNull"
  by (simp add: parseGeminiJson_def clean_fences_def js_trim_def is_space_def starts_with_def
      parse_sample Let_def brace_match_def)

end
